theory Spec2Isabelle
  imports Complex_Main
begin

section \<open>Floating-point values and configuration constants\<close>

text \<open>
  The program computes with IEEE doubles held in numpy arrays. Finite values are modelled
  as reals; the non-finite values that the code tests for (\<open>np.isnan\<close>, \<open>np.isfinite\<close>)
  are separate constructors. Rounding is not modelled.
\<close>

datatype flt = Fin real | PInf | NInf | NaN

text \<open>Python exceptions that the modelled code raises.\<close>

datatype error = ValueError | IndexError | ZeroDivisionError


fun isnan :: "flt \<Rightarrow> bool" where
  "isnan NaN = True"
| "isnan _ = False"

text \<open>
  IEEE arithmetic on these values, as far as the code needs it: negation, addition,
  subtraction, multiplication, division by a finite non-zero constant, and comparison
  with a finite bound. An infinity times zero is NaN, NaN spreads through every
  operation, and every comparison with NaN is false.
\<close>

fun flt_neg :: "flt \<Rightarrow> flt" where
  "flt_neg (Fin a) = Fin (- a)"
| "flt_neg PInf = NInf"
| "flt_neg NInf = PInf"
| "flt_neg NaN = NaN"

fun flt_add :: "flt \<Rightarrow> flt \<Rightarrow> flt" where
  "flt_add (Fin a) (Fin b) = Fin (a + b)"
| "flt_add NaN _ = NaN"
| "flt_add _ NaN = NaN"
| "flt_add PInf NInf = NaN"
| "flt_add NInf PInf = NaN"
| "flt_add PInf _ = PInf"
| "flt_add _ PInf = PInf"
| "flt_add NInf _ = NInf"
| "flt_add _ NInf = NInf"

definition flt_sub :: "flt \<Rightarrow> flt \<Rightarrow> flt" where
  "flt_sub a b = flt_add a (flt_neg b)"

fun flt_mul :: "flt \<Rightarrow> flt \<Rightarrow> flt" where
  "flt_mul (Fin a) (Fin b) = Fin (a * b)"
| "flt_mul NaN _ = NaN"
| "flt_mul _ NaN = NaN"
| "flt_mul (Fin a) PInf = (if a = 0 then NaN else if a > 0 then PInf else NInf)"
| "flt_mul (Fin a) NInf = (if a = 0 then NaN else if a > 0 then NInf else PInf)"
| "flt_mul PInf (Fin b) = (if b = 0 then NaN else if b > 0 then PInf else NInf)"
| "flt_mul NInf (Fin b) = (if b = 0 then NaN else if b > 0 then NInf else PInf)"
| "flt_mul PInf PInf = PInf"
| "flt_mul NInf NInf = PInf"
| "flt_mul PInf NInf = NInf"
| "flt_mul NInf PInf = NInf"

fun flt_div_const :: "flt \<Rightarrow> real \<Rightarrow> flt" where
  "flt_div_const (Fin a) c = Fin (a / c)"
| "flt_div_const PInf c = (if c > 0 then PInf else NInf)"
| "flt_div_const NInf c = (if c > 0 then NInf else PInf)"
| "flt_div_const NaN c = NaN"

fun flt_ge :: "flt \<Rightarrow> real \<Rightarrow> bool" where
  "flt_ge (Fin a) b = (a \<ge> b)"
| "flt_ge PInf b = True"
| "flt_ge _ b = False"

fun flt_gt :: "flt \<Rightarrow> real \<Rightarrow> bool" where
  "flt_gt (Fin a) b = (a > b)"
| "flt_gt PInf b = True"
| "flt_gt _ b = False"

fun flt_lt :: "flt \<Rightarrow> real \<Rightarrow> bool" where
  "flt_lt (Fin a) b = (a < b)"
| "flt_lt NInf b = True"
| "flt_lt _ b = False"

fun flt_le :: "flt \<Rightarrow> real \<Rightarrow> bool" where
  "flt_le (Fin a) b = (a \<le> b)"
| "flt_le NInf b = True"
| "flt_le _ b = False"

text \<open>config.py\<close>

definition MAP_OPT_MIN :: real where "MAP_OPT_MIN = 40"
definition MAP_OPT_MAX :: real where "MAP_OPT_MAX = 90"
definition COX_WEIGHT_THRESHOLD :: real where "COX_WEIGHT_THRESHOLD = 0.3"
definition FISHER_BOUNDS :: real where "FISHER_BOUNDS = 0.999"
definition MIN_CORRELATION_POINTS :: nat where "MIN_CORRELATION_POINTS = 3"
definition MIN_DATA_POINTS :: nat where "MIN_DATA_POINTS = 10"

section \<open>signal\_processing.py: Fisher transform\<close>

text \<open>\<open>np.clip(a, lo, hi)\<close> is \<open>minimum(hi, maximum(a, lo))\<close>.\<close>

definition np_clip :: "real \<Rightarrow> real \<Rightarrow> real \<Rightarrow> real" where
  "np_clip a lo hi = min hi (max a lo)"

definition fisher_transform :: "real \<Rightarrow> real" where
  "fisher_transform r =
     (let r_clipped = np_clip r (- FISHER_BOUNDS) FISHER_BOUNDS
      in 0.5 * ln ((1 + r_clipped) / (1 - r_clipped)))"

definition inverse_fisher_transform :: "real \<Rightarrow> real" where
  "inverse_fisher_transform z = tanh z"

section \<open>mapopt\_calculator.py: weighting\<close>

text \<open>
  \<open>_calculate_weight(nadir_cox, r2)\<close>. Both arguments are doubles: \<open>nadir_cox\<close> is a
  hyperbolic tangent and \<open>r2\<close> is \<open>1 - SSE / SST\<close>, which numpy computes as NaN or
  \<open>-inf\<close> (with a warning, without raising) when \<open>SST\<close> is zero.
\<close>

definition calculate_weight :: "flt \<Rightarrow> flt \<Rightarrow> flt" where
  "calculate_weight nadir_cox r2 =
     (let cox_weight =
            (if flt_lt nadir_cox 0 then flt_neg nadir_cox
             else if flt_le nadir_cox COX_WEIGHT_THRESHOLD
               then flt_div_const (flt_sub (Fin COX_WEIGHT_THRESHOLD) nadir_cox)
                      COX_WEIGHT_THRESHOLD
             else Fin 0)
      in flt_mul r2 cox_weight)"

text \<open>The piecewise factor in the words of the specification (section 4.4).\<close>

definition coxWeight_spec :: "real \<Rightarrow> real" where
  "coxWeight_spec n =
     (if n < 0 then - n
      else if 0 \<le> n \<and> n \<le> 0.3 then (0.3 - n) / 0.3
      else 0)"


section \<open>signal\_processing.py: correlation primitive and sliding windows\<close>

text \<open>
  \<open>np.corrcoef(x, y)[0, 1]\<close> is a function of the numpy library: on finite data of equal
  length, the covariance matrix (normalised by \<open>n - 1\<close>) divided by the two standard
  deviations and clipped to \<open>[-1, 1]\<close>, all computed in doubles; the result is a number in
  \<open>[-1, 1]\<close> or NaN. It is NaN when a computed variance is exactly zero (the quotient
  \<open>0 / 0\<close>, a warning and not an exception). Whether that happens depends on rounding:
  the computed mean of equal values need not be that value (ten times 70.3 gives
  70.29999999999998), and then a constant array has a tiny non-zero computed variance
  and the result is a number. The functions below therefore take the library function
  as the parameter \<open>corrcoef\<close> and are verified for every such function.
\<close>

type_synonym corrcoef_fn = "real list \<Rightarrow> real list \<Rightarrow> flt"

definition np_mean_real :: "real list \<Rightarrow> real" where
  "np_mean_real xs = sum_list xs / real (length xs)"

text \<open>
  The value of \<open>np.corrcoef(x, y)[0, 1]\<close> in exact arithmetic. The library function agrees
  with it wherever no intermediate result is rounded, as on the small whole numbers of
  the examples in this theory, for which alone it is used.
\<close>

definition corrcoef_exact :: corrcoef_fn where
  "corrcoef_exact xs ys =
     (let mx = np_mean_real xs; my = np_mean_real ys;
          fact = real (length xs) - 1;
          c00 = sum_list (map (\<lambda>x. (x - mx) * (x - mx)) xs) / fact;
          c11 = sum_list (map (\<lambda>y. (y - my) * (y - my)) ys) / fact;
          c01 = sum_list (map (\<lambda>(x, y). (x - mx) * (y - my)) (zip xs ys)) / fact
      in if c00 = 0 \<or> c11 = 0 then NaN
         else Fin (np_clip (c01 / sqrt c00 / sqrt c11) (- 1) 1))"

text \<open>
  The pairs of \<open>x[mask], y[mask]\<close> for \<open>mask = np.isfinite(x) & np.isfinite(y)\<close>.
\<close>

fun finite_pair :: "flt \<times> flt \<Rightarrow> (real \<times> real) option" where
  "finite_pair (Fin a, Fin b) = Some (a, b)"
| "finite_pair _ = None"

definition finite_pairs :: "flt list \<Rightarrow> flt list \<Rightarrow> (real \<times> real) list" where
  "finite_pairs x y = List.map_filter finite_pair (zip x y)"

text \<open>
  \<open>fast_correlation\<close>. Arrays of different lengths make the mask computation raise,
  which the bare \<open>except\<close> turns into NaN.
\<close>

definition fast_correlation :: "corrcoef_fn \<Rightarrow> flt list \<Rightarrow> flt list \<Rightarrow> flt" where
  "fast_correlation corrcoef x y =
     (if length x < MIN_CORRELATION_POINTS \<or> length y < MIN_CORRELATION_POINTS then NaN
      else if length x \<noteq> length y then NaN
      else
        let clean = finite_pairs x y
        in if length clean < MIN_CORRELATION_POINTS then NaN
           else corrcoef (map fst clean) (map snd clean))"

text \<open>\<open>np.mean\<close> on values that may be infinite or NaN.\<close>

fun flt_div_count :: "flt \<Rightarrow> nat \<Rightarrow> flt" where
  "flt_div_count (Fin a) n = (if n = 0 then NaN else Fin (a / real n))"
| "flt_div_count v n = v"

definition np_mean :: "flt list \<Rightarrow> flt" where
  "np_mean xs = flt_div_count (fold flt_add xs (Fin 0)) (length xs)"

text \<open>Python's \<open>int(x)\<close> on a float truncates toward zero.\<close>

definition py_int :: "real \<Rightarrow> int" where
  "py_int r = (if r \<ge> 0 then \<lfloor>r\<rfloor> else \<lceil>r\<rceil>)"

text \<open>
  The signal is three columns of one data frame, hence three arrays of one length; the
  rows selected by a mask over the time column are the filtered triples.
\<close>

type_synonym sample = "real \<times> flt \<times> flt"

definition rows :: "real list \<Rightarrow> flt list \<Rightarrow> flt list \<Rightarrow> sample list" where
  "rows time MAP rSO2 = zip time (zip MAP rSO2)"

definition in_window :: "real \<Rightarrow> real \<Rightarrow> sample \<Rightarrow> bool" where
  "in_window lo hi smp = (fst smp \<ge> lo \<and> fst smp < hi)"

text \<open>
  One pass of the \<open>for s in range(num_steps)\<close> loop body of
  \<open>calculate_sliding_window_correlations\<close>: the observation (correlation, mean MAP) the
  sub-window adds, or \<open>None\<close> when the pass appends nothing. The correlation primitive
  returns a value of \<open>np.corrcoef\<close>, clipped to \<open>[-1, 1]\<close>, or NaN, so "not NaN" is the
  \<open>Fin\<close> case.
\<close>

definition window_observation ::
  "corrcoef_fn \<Rightarrow> sample list \<Rightarrow> real \<Rightarrow> real \<Rightarrow> (real \<times> flt) option"
where
  "window_observation corrcoef seg win_start win_end =
     (let win = filter (in_window win_start win_end) seg
      in if length win < MIN_DATA_POINTS then None
         else
           let map_win = map (\<lambda>smp. fst (snd smp)) win;
               rso2_win = map (\<lambda>smp. snd (snd smp)) win
           in if length map_win > 1 then
                (case fast_correlation corrcoef map_win rso2_win of
                   Fin corr \<Rightarrow> Some (corr, np_mean map_win)
                 | _ \<Rightarrow> None)
              else None)"

text \<open>
  \<open>calculate_sliding_window_correlations\<close>, returning \<open>(cox_vals, map_vals)\<close>. The step
  count divides by \<open>win_hr / 2\<close>: a zero window is Python's ZeroDivisionError.
\<close>

definition calculate_sliding_window_correlations ::
  "corrcoef_fn \<Rightarrow> real list \<Rightarrow> flt list \<Rightarrow> flt list \<Rightarrow> real \<Rightarrow> real \<Rightarrow> real
   \<Rightarrow> error + (real list \<times> flt list)"
where
  "calculate_sliding_window_correlations corrcoef time MAP rSO2 win_hr hist_hr t_now =
     (let t_start = t_now - hist_hr;
          seg = filter (in_window t_start t_now) (rows time MAP rSO2)
      in if length seg < 60 then Inr ([], [])
         else
           let step_size = win_hr / 2
           in if step_size = 0 then Inl ZeroDivisionError
              else
                let num_steps = py_int ((hist_hr - win_hr) / step_size) + 1;
                    obs = List.map_filter
                            (\<lambda>s. let win_start = t_now - hist_hr + real s * step_size;
                                     win_end = win_start + win_hr
                                 in window_observation corrcoef seg win_start win_end)
                            [0 ..< nat num_steps]
                in Inr (map fst obs, map snd obs))"

text \<open>
  \<open>bin_correlations\<close>: per MAP bin the mean of the correlations whose mean MAP lies in
  the bin, NaN (\<open>None\<close>) for a bin without observation.
\<close>

type_synonym nfloat = "real option"

definition bin_correlations :: "real list \<Rightarrow> flt list \<Rightarrow> real list \<Rightarrow> nfloat list" where
  "bin_correlations cox_vals map_vals bins =
     (if length cox_vals < 5 then replicate (length bins - 1) None
      else
        map (\<lambda>b. let sel = map fst (filter (\<lambda>(c, m). flt_ge m (bins ! b) \<and> flt_lt m (bins ! (b + 1)))
                                       (zip cox_vals map_vals))
                 in if sel \<noteq> [] then Some (np_mean_real sel) else None)
            [0 ..< length bins - 1])"

section \<open>mapopt\_calculator.py: one curve fit\<close>

text \<open>config.py, the analysis grids.\<close>

definition MAP_BINS :: "real list" where
  "MAP_BINS = [40, 45, 50, 55, 60, 65, 70, 75, 80, 85, 90, 95, 100]"

definition MAP_BIN_CENTERS :: "real list" where
  "MAP_BIN_CENTERS = map (\<lambda>b. b + 2.5) (butlast MAP_BINS)"

definition COX_WINDOWS_MIN :: "real list" where
  "COX_WINDOWS_MIN = [3, 5, 10, 20, 30, 60, 90, 120]"

definition HISTORY_WINDOWS_HR :: "real list" where
  "HISTORY_WINDOWS_HR = [1, 2, 3, 4, 5, 6, 7, 8, 12]"

definition TIME_STEP_MIN :: real where "TIME_STEP_MIN = 1 / 60"
definition CHUNK_SIZE :: nat where "CHUNK_SIZE = 25"
definition SAVGOL_WINDOW :: nat where "SAVGOL_WINDOW = 11"

text \<open>
  \<open>np.polyfit(x, y, 2)\<close>: the least-squares parabola, here as the solution of the normal
  equations by Cramer's rule; the result is \<open>(coeffs[0], coeffs[1], coeffs[2])\<close>, highest
  power first. The determinant vanishes only when fewer than three different abscissae
  are given, where numpy answers with a minimum-norm solution and a RankWarning; bin
  centres are pairwise different, and the model gives no coefficients there.
\<close>

definition det3 ::
  "real \<Rightarrow> real \<Rightarrow> real \<Rightarrow> real \<Rightarrow> real \<Rightarrow> real \<Rightarrow> real \<Rightarrow> real \<Rightarrow> real \<Rightarrow> real"
where
  "det3 a11 a12 a13 a21 a22 a23 a31 a32 a33 =
     a11 * (a22 * a33 - a23 * a32) - a12 * (a21 * a33 - a23 * a31)
       + a13 * (a21 * a32 - a22 * a31)"

definition np_polyfit2 :: "real list \<Rightarrow> real list \<Rightarrow> (real \<times> real \<times> real) option" where
  "np_polyfit2 xs ys =
     (let s0 = real (length xs);
          s1 = sum_list xs;
          s2 = sum_list (map (\<lambda>x. x ^ 2) xs);
          s3 = sum_list (map (\<lambda>x. x ^ 3) xs);
          s4 = sum_list (map (\<lambda>x. x ^ 4) xs);
          t0 = sum_list ys;
          t1 = sum_list (map (\<lambda>(x, y). x * y) (zip xs ys));
          t2 = sum_list (map (\<lambda>(x, y). x ^ 2 * y) (zip xs ys));
          d = det3 s4 s3 s2 s3 s2 s1 s2 s1 s0
      in if d = 0 then None
         else Some (det3 t2 s3 s2 t1 s2 s1 t0 s1 s0 / d,
                    det3 s4 t2 s2 s3 t1 s1 s2 t0 s0 / d,
                    det3 s4 s3 t2 s3 s2 t1 s2 s1 t0 / d))"

fun np_polyval :: "real \<times> real \<times> real \<Rightarrow> real \<Rightarrow> real" where
  "np_polyval (a, b, c) x = a * x ^ 2 + b * x + c"

text \<open>\<open>np.min\<close> and \<open>np.max\<close> of a non-empty array.\<close>

definition np_min :: "real list \<Rightarrow> real" where
  "np_min xs = fold min (tl xs) (hd xs)"

definition np_max :: "real list \<Rightarrow> real" where
  "np_max xs = fold max (tl xs) (hd xs)"

text \<open>The \<open>fit_data\<close> dictionary returned with an accepted fit.\<close>

record fit_data =
  fd_win_hr :: real
  fd_hist_hr :: real
  fd_bin_centers :: "real list"
  fd_binned_cox :: "real list"
  fd_binned_cox_fisher :: "real list"
  fd_coeffs :: "real \<times> real \<times> real"
  fd_mapopt :: real
  fd_nadir_cox :: real
  fd_r2 :: real
  fd_weight :: real

text \<open>
  The bins that carry a value, with their centres: \<open>bin_centers[valid]\<close> and
  \<open>binned_cox[valid]\<close>. The Fisher transform maps NaN to NaN and a number to a finite
  number, so \<open>valid\<close> marks exactly the bins whose mean correlation is a number.
\<close>

fun valid_bin :: "real \<times> nfloat \<Rightarrow> (real \<times> real) option" where
  "valid_bin (c, Some r) = Some (c, r)"
| "valid_bin (c, None) = None"

text \<open>
  Lines 193 to 244 of \<open>_calculate_single_fit\<close>: from the binned correlations to the
  accepted fit \<open>(mapopt, weight, fit_data)\<close> or \<open>None\<close>. Inside the \<open>try\<close> every exception
  (a mask of another length than \<open>bin_centers\<close>) ends in \<open>return None\<close>. A vanishing
  \<open>SST\<close> makes \<open>R2\<close>, and with it the weight, NaN or \<open>-inf\<close>, and the test
  \<open>weight > 1e-6\<close> fails. Otherwise \<open>R2\<close> and the nadir correlation are finite, and so
  is the weight (lemma \<open>calculate_weight_finite\<close>).
\<close>

definition fit_binned ::
  "real \<Rightarrow> real \<Rightarrow> real list \<Rightarrow> nfloat list \<Rightarrow> (real \<times> real \<times> fit_data) option"
where
  "fit_binned win_hr hist_hr bin_centers binned_cox =
     (let pts = List.map_filter valid_bin (zip bin_centers binned_cox);
          xs = map fst pts;
          cox = map snd pts;
          ys = map fisher_transform cox
      in if length (filter (\<lambda>v. v \<noteq> None) binned_cox) \<ge> 3 then
           if length bin_centers \<noteq> length binned_cox then None
           else
             (case np_polyfit2 xs ys of
                None \<Rightarrow> None
              | Some coeffs \<Rightarrow>
                  if fst coeffs > 0 then
                    let mapopt_theoretical = - fst (snd coeffs) / (2 * fst coeffs);
                        data_min = np_min xs;
                        data_max = np_max xs;
                        mapopt = np_clip mapopt_theoretical data_min data_max
                    in if MAP_OPT_MIN \<le> mapopt \<and> mapopt \<le> MAP_OPT_MAX then
                         let yfit = map (np_polyval coeffs) xs;
                             SSE = sum_list (map (\<lambda>(y, f). (y - f) ^ 2) (zip ys yfit));
                             SST = sum_list (map (\<lambda>y. (y - np_mean_real ys) ^ 2) ys)
                         in if SST = 0 then None
                            else
                              let R2 = 1 - SSE / SST;
                                  nadir_cox_fisher = np_polyval coeffs mapopt;
                                  nadir_cox = inverse_fisher_transform nadir_cox_fisher;
                                  weight = calculate_weight (Fin nadir_cox) (Fin R2)
                              in (case weight of
                                    Fin w \<Rightarrow>
                                      if w > 1 / 10 ^ 6 then
                                        Some (mapopt, w,
                                          \<lparr>fd_win_hr = win_hr, fd_hist_hr = hist_hr,
                                           fd_bin_centers = xs, fd_binned_cox = cox,
                                           fd_binned_cox_fisher = ys, fd_coeffs = coeffs,
                                           fd_mapopt = mapopt, fd_nadir_cox = nadir_cox,
                                           fd_r2 = R2, fd_weight = w\<rparr>)
                                      else None
                                  | _ \<Rightarrow> None)
                       else None
                  else None)
         else None)"

text \<open>\<open>_calculate_single_fit\<close>; \<open>t[0]\<close> of an empty time array is an IndexError.\<close>

definition calculate_single_fit ::
  "corrcoef_fn \<Rightarrow> real \<Rightarrow> real list \<Rightarrow> flt list \<Rightarrow> flt list \<Rightarrow> real \<Rightarrow> real \<Rightarrow> real list \<Rightarrow> real list
   \<Rightarrow> error + (real \<times> real \<times> fit_data) option"
where
  "calculate_single_fit corrcoef t_now t MAP rSO2 win_hr hist_hr bins bin_centers =
     (case t of
        [] \<Rightarrow> Inl IndexError
      | t0 # _ \<Rightarrow>
          if t_now - hist_hr < t0 then Inr None
          else
            (case calculate_sliding_window_correlations corrcoef t MAP rSO2 win_hr hist_hr t_now of
               Inl e \<Rightarrow> Inl e
             | Inr (cox_vals, map_vals) \<Rightarrow>
                 if length map_vals < 5 then Inr None
                 else Inr (fit_binned win_hr hist_hr bin_centers
                             (bin_correlations cox_vals map_vals bins))))"

section \<open>mapopt\_calculator.py: one evaluation time\<close>

text \<open>The argument tuple of \<open>_process_time_point\<close>.\<close>

record tp_args =
  a_k :: nat
  a_t_now :: real
  a_t :: "real list"
  a_MAP :: "flt list"
  a_rSO2 :: "flt list"
  a_bins :: "real list"
  a_bin_centers :: "real list"
  a_cox_windows_min :: "real list"
  a_history_windows_hr :: "real list"

text \<open>The three lists \<open>mapopts\<close>, \<open>weights\<close>, \<open>local_fits\<close> that the loops append to.\<close>

type_synonym fit_acc = "real list \<times> real list \<times> fit_data list"

fun hist_loop :: "corrcoef_fn \<Rightarrow> tp_args \<Rightarrow> real \<Rightarrow> real list \<Rightarrow> fit_acc \<Rightarrow> error + fit_acc" where
  "hist_loop corrcoef args win_hr [] acc = Inr acc"
| "hist_loop corrcoef args win_hr (hist_hr # hs) (mapopts, weights, local_fits) =
     (case calculate_single_fit corrcoef (a_t_now args) (a_t args) (a_MAP args) (a_rSO2 args)
             win_hr hist_hr (a_bins args) (a_bin_centers args) of
        Inl e \<Rightarrow> Inl e
      | Inr None \<Rightarrow> hist_loop corrcoef args win_hr hs (mapopts, weights, local_fits)
      | Inr (Some (mapopt, weight, fit)) \<Rightarrow>
          hist_loop corrcoef args win_hr hs
            (mapopts @ [mapopt], weights @ [weight], local_fits @ [fit]))"

fun win_loop :: "corrcoef_fn \<Rightarrow> tp_args \<Rightarrow> real list \<Rightarrow> fit_acc \<Rightarrow> error + fit_acc" where
  "win_loop corrcoef args [] acc = Inr acc"
| "win_loop corrcoef args (cox_win_min # ws) acc =
     (case hist_loop corrcoef args (cox_win_min / 60) (a_history_windows_hr args) acc of
        Inl e \<Rightarrow> Inl e
      | Inr acc' \<Rightarrow> win_loop corrcoef args ws acc')"

type_synonym tp_result = "nat \<times> nfloat \<times> fit_data list"

definition process_time_point :: "corrcoef_fn \<Rightarrow> tp_args \<Rightarrow> error + tp_result" where
  "process_time_point corrcoef args =
     (case win_loop corrcoef args (a_cox_windows_min args) ([], [], []) of
        Inl e \<Rightarrow> Inl e
      | Inr (mapopts, weights, local_fits) \<Rightarrow>
          if mapopts \<noteq> [] \<and> length weights > 0 then
            Inr (a_k args,
                 Some (sum_list (map (\<lambda>(m, w). m * w) (zip mapopts weights))
                         / sum_list weights),
                 local_fits)
          else Inr (a_k args, None, []))"

text \<open>
  The results of several calls in order; the first exception is the one raised.
\<close>

fun collect :: "(error + 'a) list \<Rightarrow> error + 'a list" where
  "collect [] = Inr []"
| "collect (Inl e # rs) = Inl e"
| "collect (Inr v # rs) = (case collect rs of Inl e \<Rightarrow> Inl e | Inr vs \<Rightarrow> Inr (v # vs))"

text \<open>
  The specification's view of one evaluation time (section 4.5): the accepted fits
  \<open>(candidate, weight, CurveFit)\<close> of all (window, history) combinations, in sweep order.
\<close>

definition combination_fits :: "corrcoef_fn \<Rightarrow> tp_args \<Rightarrow> error + (real \<times> real \<times> fit_data) list" where
  "combination_fits corrcoef args =
     (case collect (map (\<lambda>(cox_win_min, hist_hr).
                          calculate_single_fit corrcoef (a_t_now args) (a_t args) (a_MAP args)
                            (a_rSO2 args) (cox_win_min / 60) hist_hr (a_bins args)
                            (a_bin_centers args))
                      (List.product (a_cox_windows_min args) (a_history_windows_hr args))) of
        Inl e \<Rightarrow> Inl e
      | Inr rs \<Rightarrow> Inr (List.map_filter (\<lambda>r. r) rs))"

text \<open>The centres of the bins that contribute a point to the quadratic fit.\<close>

definition contributing_centers :: "real list \<Rightarrow> nfloat list \<Rightarrow> real list" where
  "contributing_centers bin_centers binned_cox =
     map fst (List.map_filter valid_bin (zip bin_centers binned_cox))"

text \<open>
  An example of binned correlations: 0.5, 0 and 0.5 in the bins centred at 62.5, 67.5
  and 72.5 mmHg, no observation elsewhere.
\<close>

definition example_binned_cox :: "nfloat list" where
  "example_binned_cox =
     [None, None, None, None, Some (1/2), Some 0, Some (1/2), None, None, None, None, None]"

text \<open>
  Scenario A of the specification, one hour of it: 61 samples one minute apart with MAP
  constant at 70 and rSO2 constant at 60.
\<close>

definition const_t :: "real list" where
  "const_t = map (\<lambda>k. real k / 60) [0 ..< 61]"

definition const_MAP :: "flt list" where
  "const_MAP = replicate 61 (Fin 70)"

definition const_rSO2 :: "flt list" where
  "const_rSO2 = replicate 61 (Fin 60)"


section \<open>mapopt\_calculator.py: the scheduler\<close>

text \<open>\<open>_prepare_processing_args\<close>: one argument tuple per evaluation time, numbered.\<close>

definition prepare_processing_args ::
  "real list \<Rightarrow> real list \<Rightarrow> flt list \<Rightarrow> flt list \<Rightarrow> tp_args list"
where
  "prepare_processing_args time_vector t MAP rSO2 =
     map (\<lambda>(k, t_now).
            \<lparr>a_k = k, a_t_now = t_now, a_t = t, a_MAP = MAP, a_rSO2 = rSO2,
             a_bins = MAP_BINS, a_bin_centers = MAP_BIN_CENTERS,
             a_cox_windows_min = COX_WINDOWS_MIN,
             a_history_windows_hr = HISTORY_WINDOWS_HR\<rparr>)
         (zip [0 ..< length time_vector] time_vector)"

text \<open>
  The two output arrays and the values passed to the progress callback, in order.
\<close>

record par_state =
  mapopt_series :: "nfloat list"
  all_fits_data :: "fit_data list list"
  progress :: "real list"

text \<open>
  What the worker pool does is not decided by the program: it works, its creation
  raises, or \<open>pool.map\<close> raises at the dispatch of a given chunk.
\<close>

datatype pool_behaviour = PoolOk | PoolCreateFails | DispatchFails nat

text \<open>
  \<open>mapopt_series[k] = weighted_mapopt; all_fits_data[k] = local_fits\<close> for each result.
  The flag is false when an index is out of range (IndexError); the arrays keep what
  was written before.
\<close>

fun store_results :: "tp_result list \<Rightarrow> par_state \<Rightarrow> par_state \<times> bool" where
  "store_results [] st = (st, True)"
| "store_results ((k, weighted_mapopt, local_fits) # rs) st =
     (if k < length (mapopt_series st) \<and> k < length (all_fits_data st)
      then store_results rs
             (st\<lparr>mapopt_series := (mapopt_series st)[k := weighted_mapopt],
                 all_fits_data := (all_fits_data st)[k := local_fits]\<rparr>)
      else (st, False))"

text \<open>
  The body of the \<open>try\<close>: the chunk loop from chunk \<open>chunk_idx\<close> on. The flag is false
  when an exception left the loop (a failed dispatch, an exception of a worker, an
  index out of range); the state is the one reached then.
\<close>

function chunk_loop ::
  "corrcoef_fn \<Rightarrow> pool_behaviour \<Rightarrow> bool \<Rightarrow> tp_args list \<Rightarrow> nat \<Rightarrow> nat \<Rightarrow> par_state \<Rightarrow> par_state \<times> bool"
where
  "chunk_loop corrcoef pool has_callback args_list total_chunks chunk_idx st =
     (if chunk_idx < total_chunks then
        let start_idx = chunk_idx * CHUNK_SIZE;
            end_idx = min ((chunk_idx + 1) * CHUNK_SIZE) (length args_list)
        in if start_idx \<ge> length args_list then (st, True)
           else
             let chunk_args = take (end_idx - start_idx) (drop start_idx args_list)
             in if pool = DispatchFails chunk_idx then (st, False)
                else
                  (case collect (map (process_time_point corrcoef) chunk_args) of
                     Inl e \<Rightarrow> (st, False)
                   | Inr results \<Rightarrow>
                       (case store_results results st of
                          (st', False) \<Rightarrow> (st', False)
                        | (st', True) \<Rightarrow>
                            chunk_loop corrcoef pool has_callback args_list total_chunks
                              (chunk_idx + 1)
                              (if has_callback
                               then st'\<lparr>progress := progress st' @
                                      [real (chunk_idx + 1) / real total_chunks * 100]\<rparr>
                               else st')))
      else (st, True))"
  by pat_completeness auto
termination
  by (relation "measure (\<lambda>(corrcoef, pool, cb, args_list, total_chunks, chunk_idx, st).
                           total_chunks - chunk_idx)") auto

declare chunk_loop.simps [simp del]

text \<open>
  The \<open>except\<close> branch: every argument tuple again, one after the other, from the first.
  An exception here leaves \<open>_process_parallel\<close>.
\<close>

fun fallback_loop :: "corrcoef_fn \<Rightarrow> bool \<Rightarrow> nat \<Rightarrow> nat \<Rightarrow> tp_args list \<Rightarrow> par_state \<Rightarrow> error + par_state" where
  "fallback_loop corrcoef has_callback n i [] st = Inr st"
| "fallback_loop corrcoef has_callback n i (args # rest) st =
     (case process_time_point corrcoef args of
        Inl e \<Rightarrow> Inl e
      | Inr (k, weighted_mapopt, local_fits) \<Rightarrow>
          if k < length (mapopt_series st) \<and> k < length (all_fits_data st) then
            let st' = st\<lparr>mapopt_series := (mapopt_series st)[k := weighted_mapopt],
                         all_fits_data := (all_fits_data st)[k := local_fits]\<rparr>
            in fallback_loop corrcoef has_callback n (i + 1) rest
                 (if has_callback \<and> i mod 25 = 0
                  then st'\<lparr>progress := progress st' @ [real i / real n * 100]\<rparr>
                  else st')
          else Inl IndexError)"

definition process_parallel ::
  "corrcoef_fn \<Rightarrow> real list \<Rightarrow> tp_args list \<Rightarrow> pool_behaviour \<Rightarrow> bool \<Rightarrow> error + par_state"
where
  "process_parallel corrcoef time_vector args_list pool has_callback =
     (let st0 = \<lparr>mapopt_series = replicate (length time_vector) None,
                 all_fits_data = replicate (length time_vector) [],
                 progress = []\<rparr>;
          total_chunks = length args_list div CHUNK_SIZE + 1;
          (st1, completed) =
             (if pool = PoolCreateFails then (st0, False)
              else chunk_loop corrcoef pool has_callback args_list total_chunks 0 st0)
      in if completed then Inr st1
         else fallback_loop corrcoef has_callback (length args_list) 0 args_list st1)"

text \<open>
  The per-slot results of a run, and what the workers compute for the evaluation times
  in grid order: slot \<open>k\<close> holds the estimate and the diagnostics of time \<open>k\<close>.
\<close>

definition arrays :: "par_state \<Rightarrow> nfloat list \<times> fit_data list list" where
  "arrays st = (mapopt_series st, all_fits_data st)"

definition worker_results :: "corrcoef_fn \<Rightarrow> tp_args list \<Rightarrow> error + (nfloat list \<times> fit_data list list)" where
  "worker_results corrcoef args_list =
     (case collect (map (process_time_point corrcoef) args_list) of
        Inl e \<Rightarrow> Inl e
      | Inr rs \<Rightarrow> Inr (map (\<lambda>r. fst (snd r)) rs, map (\<lambda>r. snd (snd r)) rs))"

section \<open>mapopt\_calculator.py: post-processing\<close>

text \<open>
  \<open>scipy.interpolate.PchipInterpolator\<close>, which pandas calls for \<open>method='pchip'\<close>. The
  derivative at an inner knot is 0 where the neighbouring slopes differ in sign or
  vanish, and their weighted harmonic mean otherwise; the end derivatives are the
  one-sided three-point estimates, limited to keep the shape; two knots give the chord.
\<close>

definition pchip_edge_case :: "real \<Rightarrow> real \<Rightarrow> real \<Rightarrow> real \<Rightarrow> real" where
  "pchip_edge_case h0 h1 m0 m1 =
     (let d = ((2 * h0 + h1) * m0 - h0 * m1) / (h0 + h1)
      in if sgn d \<noteq> sgn m0 then 0
         else if sgn m0 \<noteq> sgn m1 \<and> \<bar>d\<bar> > 3 * \<bar>m0\<bar> then 3 * m0
         else d)"

definition pchip_inner :: "real \<Rightarrow> real \<Rightarrow> real \<Rightarrow> real \<Rightarrow> real" where
  "pchip_inner h_prev h_next m_prev m_next =
     (if sgn m_prev \<noteq> sgn m_next \<or> m_next = 0 \<or> m_prev = 0 then 0
      else
        let w1 = 2 * h_next + h_prev;
            w2 = h_next + 2 * h_prev;
            whmean = (w1 / m_prev + w2 / m_next) / (w1 + w2)
        in 1 / whmean)"

definition np_diff :: "real list \<Rightarrow> real list" where
  "np_diff xs = map (\<lambda>(a, b). b - a) (zip xs (tl xs))"

definition pchip_derivatives :: "real list \<Rightarrow> real list \<Rightarrow> real list" where
  "pchip_derivatives x y =
     (let hk = np_diff x;
          mk = map (\<lambda>(dy, h). dy / h) (zip (np_diff y) hk)
      in if length y = 2 then [mk ! 0, mk ! 0]
         else
           pchip_edge_case (hk ! 0) (hk ! 1) (mk ! 0) (mk ! 1)
           # map (\<lambda>k. pchip_inner (hk ! k) (hk ! (k + 1)) (mk ! k) (mk ! (k + 1)))
               [0 ..< length mk - 1]
           @ [pchip_edge_case (last hk) (hk ! (length hk - 2)) (last mk)
                (mk ! (length mk - 2))])"

text \<open>
  The value of the interpolant at \<open>xq\<close>, for at least two knots: the cubic of the segment
  that contains \<open>xq\<close>, the first or the last segment outside the knots (extrapolation).
\<close>

definition pchip_segment :: "real list \<Rightarrow> real \<Rightarrow> nat" where
  "pchip_segment x xq =
     min (length x - 2) (length (filter (\<lambda>xk. xk \<le> xq) (tl x)))"

definition pchip_eval :: "real list \<Rightarrow> real list \<Rightarrow> real \<Rightarrow> real" where
  "pchip_eval x y xq =
     (let dk = pchip_derivatives x y;
          k = pchip_segment x xq;
          h = x ! (k + 1) - x ! k;
          slope = (y ! (k + 1) - y ! k) / h;
          t = (dk ! k + dk ! (k + 1) - 2 * slope) / h;
          c0 = t / h;
          c1 = (slope - dk ! k) / h - t;
          s = xq - x ! k
      in c0 * s ^ 3 + c1 * s ^ 2 + dk ! k * s + y ! k)"

text \<open>
  \<open>pd.Series(a).interpolate(method='pchip')\<close> on the default index 0, 1, 2, ...: a
  series without NaN or without a number is returned as it is; otherwise the NaN
  entries after the first number are replaced by the interpolant through the numbers
  (beyond the last number by its extrapolation), and the NaN entries before the first
  number stay. With a single number among NaN entries the interpolator has one knot
  only and raises ValueError.
\<close>

definition valid_knots :: "nfloat list \<Rightarrow> (nat \<times> real) list" where
  "valid_knots a =
     List.map_filter (\<lambda>(i, v). map_option (\<lambda>r. (i, r)) v) (zip [0 ..< length a] a)"

definition pd_interpolate_pchip :: "nfloat list \<Rightarrow> error + nfloat list" where
  "pd_interpolate_pchip a =
     (let knots = valid_knots a
      in if knots = [] \<or> length knots = length a then Inr a
         else if length knots < 2 then Inl ValueError
         else
           let x = map (\<lambda>p. real (fst p)) knots;
               y = map snd knots;
               first_valid = fst (hd knots)
           in Inr (map (\<lambda>(i, v). case v of
                                    Some r \<Rightarrow> Some r
                                  | None \<Rightarrow> if i < first_valid then None
                                            else Some (pchip_eval x y (real i)))
                     (zip [0 ..< length a] a)))"

text \<open>\<open>Series.ffill()\<close> and \<open>Series.bfill()\<close>.\<close>

fun ffill_from :: "nfloat \<Rightarrow> nfloat list \<Rightarrow> nfloat list" where
  "ffill_from prev [] = []"
| "ffill_from prev (Some v # xs) = Some v # ffill_from (Some v) xs"
| "ffill_from prev (None # xs) = prev # ffill_from prev xs"

definition ffill :: "nfloat list \<Rightarrow> nfloat list" where
  "ffill xs = ffill_from None xs"

definition bfill :: "nfloat list \<Rightarrow> nfloat list" where
  "bfill xs = rev (ffill (rev xs))"

text \<open>
  \<open>scipy.signal.savgol_filter(x, 11, 3)\<close> with the default \<open>mode='interp'\<close>, for more
  than 11 points. Row \<open>i\<close> of the table gives, times 858, the weights with which the
  least-squares cubic through 11 consecutive points is evaluated at the \<open>i\<close>-th of them.
  An inner point is the value at the centre (row 5, the classical coefficients
  -36, 9, 44, 69, 84, 89, ... over 429) of the window around it; the first five and the
  last five points are read off the cubic through the first and the last 11 points.
\<close>

definition savgol_table :: "real list list" where
  "savgol_table =
     [[678, 288, 48, -72, -102, -72, -12, 48, 78, 48, -72],
      [288, 246, 192, 132, 72, 18, -24, -48, -48, -18, 48],
      [48, 192, 246, 232, 172, 88, 2, -64, -88, -48, 78],
      [-72, 132, 232, 251, 212, 138, 52, -23, -64, -48, 48],
      [-102, 72, 172, 212, 206, 168, 112, 52, 2, -24, -12],
      [-72, 18, 88, 138, 168, 178, 168, 138, 88, 18, -72],
      [-12, -24, 2, 52, 112, 168, 206, 212, 172, 72, -102],
      [48, -48, -64, -23, 52, 138, 212, 251, 232, 132, -72],
      [78, -48, -88, -64, 2, 88, 172, 232, 246, 192, 48],
      [48, -18, -48, -48, -24, 18, 72, 132, 192, 246, 288],
      [-72, 48, 78, 48, -12, -72, -102, -72, 48, 288, 678]]"

definition savgol_point :: "nat \<Rightarrow> real list \<Rightarrow> real" where
  "savgol_point i window =
     sum_list (map (\<lambda>(c, v). c * v) (zip (savgol_table ! i) window)) / 858"

definition savgol_filter :: "real list \<Rightarrow> real list" where
  "savgol_filter x =
     (let n = length x
      in map (\<lambda>i. if i < 5 then savgol_point i (take 11 x)
                   else if i \<ge> n - 5 then savgol_point (i - (n - 11)) (drop (n - 11) x)
                   else savgol_point 5 (take 11 (drop (i - 5) x)))
           [0 ..< n])"

text \<open>
  The first three steps of \<open>_post_process_mapopt\<close>: interpolation, clamp to the
  physiological range (NaN stays NaN under \<open>np.clip\<close>), forward then backward fill.
\<close>

definition fill_and_clamp :: "nfloat list \<Rightarrow> error + nfloat list" where
  "fill_and_clamp raw_series =
     (case pd_interpolate_pchip raw_series of
        Inl e \<Rightarrow> Inl e
      | Inr mapopt_filled \<Rightarrow>
          let clamped = map (map_option (\<lambda>v. np_clip v MAP_OPT_MIN MAP_OPT_MAX)) mapopt_filled
          in Inr (bfill (ffill clamped)))"

text \<open>
  \<open>_post_process_mapopt\<close>. After the fills a NaN is left only when the whole series is
  NaN; the smoothing of such a series has no number to work with, and the model returns
  it as NaN throughout.
\<close>

definition post_process_mapopt :: "nfloat list \<Rightarrow> error + nfloat list" where
  "post_process_mapopt raw_series =
     (case fill_and_clamp raw_series of
        Inl e \<Rightarrow> Inl e
      | Inr mapopt_filled \<Rightarrow>
          if length mapopt_filled > SAVGOL_WINDOW then
            if list_all (\<lambda>v. v \<noteq> None) mapopt_filled
            then Inr (map Some (savgol_filter (map the mapopt_filled)))
            else Inr (map (\<lambda>v. None) mapopt_filled)
          else Inr mapopt_filled)"

text \<open>A value of the series is a number within the physiological band.\<close>

definition in_band :: "nfloat \<Rightarrow> bool" where
  "in_band v = (case v of None \<Rightarrow> False | Some r \<Rightarrow> 40 \<le> r \<and> r \<le> 90)"

text \<open>
  Twelve raw estimates without gap: 42.5 throughout, except 87.5 at the eleventh time.
\<close>

definition spike_series :: "nfloat list" where
  "spike_series = replicate 10 (Some 42.5) @ [Some 87.5, Some 42.5]"

section \<open>burden\_metrics.py\<close>

definition BURDEN_BOUNDS :: real where "BURDEN_BOUNDS = 5"
definition DEVIATION_MIN :: real where "DEVIATION_MIN = - 50"
definition DEVIATION_MAX :: real where "DEVIATION_MAX = 50"

text \<open>
  The attributes of a \<open>BurdenCalculator\<close>; \<open>None\<close> is Python's \<open>None\<close>, the
  value every attribute has after \<open>__init__\<close>.
\<close>

record burden_state =
  deviation :: "real list option"
  lower_bound :: "real list option"
  upper_bound :: "real list option"
  outside_upper :: "bool list option"
  outside_lower :: "bool list option"
  outside_bounds :: "bool list option"
  excess_above :: "real list option"
  excess_below :: "real list option"

definition BurdenCalculator_init :: burden_state where
  "BurdenCalculator_init =
     \<lparr>deviation = None, lower_bound = None, upper_bound = None, outside_upper = None,
      outside_lower = None, outside_bounds = None, excess_above = None,
      excess_below = None\<rparr>"

text \<open>
  \<open>np.interp(x, xp, fp)\<close> at one point, for increasing sample points given as the
  list of pairs \<open>zip xp fp\<close>: the end values outside the sample range, the chord between
  the two neighbouring samples inside. The empty case is never evaluated (see
  \<open>np_interp\<close>).
\<close>

fun np_interp1 :: "real \<Rightarrow> (real \<times> real) list \<Rightarrow> real" where
  "np_interp1 x [] = 0"
| "np_interp1 x [(x0, y0)] = y0"
| "np_interp1 x ((x0, y0) # (x1, y1) # ps) =
     (if x \<le> x0 then y0
      else if x < x1 then y0 + (y1 - y0) / (x1 - x0) * (x - x0)
      else np_interp1 x ((x1, y1) # ps))"

text \<open>\<open>np.interp\<close> raises ValueError on empty or differently long sample arrays.\<close>

definition np_interp :: "real list \<Rightarrow> real list \<Rightarrow> real list \<Rightarrow> error + real list" where
  "np_interp xs xp fp =
     (if xp = [] \<or> length xp \<noteq> length fp then Inl ValueError
      else Inr (map (\<lambda>x. np_interp1 x (zip xp fp)) xs))"

text \<open>
  \<open>calculate_deviation_and_burden(data, time_vector, mapopt_filled)\<close>, with the two
  columns \<open>data['time']\<close> and \<open>data['MAP']\<close> passed as lists. The element-wise
  operations need arrays of one shape (the series is aligned with the time grid);
  another shape is numpy's broadcasting ValueError.
\<close>

definition calculate_deviation_and_burden ::
  "burden_state \<Rightarrow> real list \<Rightarrow> real list \<Rightarrow> real list \<Rightarrow> real list \<Rightarrow> error + burden_state"
where
  "calculate_deviation_and_burden self data_time data_MAP time_vector mapopt_filled =
     (case np_interp time_vector data_time data_MAP of
        Inl e \<Rightarrow> Inl e
      | Inr map_interp \<Rightarrow>
          if length map_interp \<noteq> length mapopt_filled then Inl ValueError
          else
            let dev = map (\<lambda>(m, p). np_clip (m - p) DEVIATION_MIN DEVIATION_MAX)
                        (zip map_interp mapopt_filled);
                lb = map (\<lambda>p. p - BURDEN_BOUNDS) mapopt_filled;
                ub = map (\<lambda>p. p + BURDEN_BOUNDS) mapopt_filled;
                ou = map (\<lambda>(m, u). m > u) (zip map_interp ub);
                ol = map (\<lambda>(m, l). m < l) (zip map_interp lb);
                ob = map (\<lambda>(a, b). a \<or> b) (zip ou ol);
                ea = map (\<lambda>(c, (m, u)). if c then m - u else 0) (zip ou (zip map_interp ub));
                eb = map (\<lambda>(c, (m, l)). if c then l - m else 0) (zip ol (zip map_interp lb))
            in Inr (self\<lparr>deviation := Some dev, lower_bound := Some lb, upper_bound := Some ub,
                         outside_upper := Some ou, outside_lower := Some ol,
                         outside_bounds := Some ob, excess_above := Some ea,
                         excess_below := Some eb\<rparr>))"

text \<open>
  Boolean-mask indexing \<open>a[mask]\<close>: the entries of \<open>a\<close> where the mask is true; a mask of
  another length is an IndexError.
\<close>

definition mask_select :: "'a list \<Rightarrow> bool list \<Rightarrow> error + 'a list" where
  "mask_select a msk =
     (if length a \<noteq> length msk then Inl IndexError
      else Inr (map fst (filter snd (zip a msk))))"

text \<open>\<open>np.trapz(y, x)\<close>: the composite trapezoidal rule over the sample points.\<close>

fun np_trapz :: "real list \<Rightarrow> real list \<Rightarrow> real" where
  "np_trapz (y0 # y1 # ys) (x0 # x1 # xs) =
     (x1 - x0) * (y1 + y0) / 2 + np_trapz (y1 # ys) (x1 # xs)"
| "np_trapz _ _ = 0"

record burden_result =
  t_start_hr :: real
  t_end_hr :: real
  time_burden :: real
  area_burden_ratio :: real

text \<open>
  \<open>_calculate_area_burden\<close>. The attributes it reads are set together with
  \<open>outside_bounds\<close>; were one of them still \<open>None\<close>, subscripting it would be a
  TypeError, which the model reports as ValueError.
\<close>

definition calculate_area_burden :: "burden_state \<Rightarrow> real list \<Rightarrow> bool list \<Rightarrow> error + real" where
  "calculate_area_burden self time_vector time_idx =
     (case (excess_above self, excess_below self, upper_bound self, lower_bound self) of
        (Some ea, Some eb, Some ub, Some lb) \<Rightarrow>
          (case (mask_select ea time_idx, mask_select eb time_idx, mask_select ub time_idx,
                 mask_select lb time_idx, mask_select time_vector time_idx) of
             (Inr ea', Inr eb', Inr ub', Inr lb', Inr tv') \<Rightarrow>
               let area_outside = np_trapz (map (\<lambda>(a, b). a + b) (zip ea' eb')) tv';
                   area_safe_zone = np_trapz (map (\<lambda>(u, l). u - l) (zip ub' lb')) tv'
               in if area_safe_zone > 0 then Inr ((area_outside / area_safe_zone) * 100)
                  else Inr 0
           | _ \<Rightarrow> Inl IndexError)
      | _ \<Rightarrow> Inl ValueError)"

definition calculate_burden_metrics ::
  "burden_state \<Rightarrow> real list \<Rightarrow> real \<Rightarrow> real \<Rightarrow> error + burden_result"
where
  "calculate_burden_metrics self time_vector t_start t_end =
     (case outside_bounds self of
        None \<Rightarrow> Inl ValueError
      | Some ob \<Rightarrow>
          if time_vector = [] then Inl IndexError
          else
            let t_start' = max t_start (hd time_vector);
                t_end' = min t_end (last time_vector);
                time_idx = map (\<lambda>t. t \<ge> t_start' \<and> t \<le> t_end') time_vector
            in if \<not> list_ex (\<lambda>b. b) time_idx
               then Inr \<lparr>t_start_hr = t_start', t_end_hr = t_end', time_burden = 0,
                         area_burden_ratio = 0\<rparr>
               else
                 (case mask_select ob time_idx of
                    Inl e \<Rightarrow> Inl e
                  | Inr sel \<Rightarrow>
                      let tb = real (length (filter (\<lambda>b. b) sel))
                                 / real (length (filter (\<lambda>b. b) time_idx)) * 100
                      in (case calculate_area_burden self time_vector time_idx of
                            Inl e \<Rightarrow> Inl e
                          | Inr abr \<Rightarrow>
                              Inr \<lparr>t_start_hr = t_start', t_end_hr = t_end',
                                   time_burden = tb, area_burden_ratio = abr\<rparr>)))"

text \<open>
  The \<open>while current_time <= end_time\<close> loop of \<open>calculate_burden_over_time\<close>. It does
  not end when \<open>step_hours\<close> is not positive; not returning is the value \<open>None\<close>.
\<close>

partial_function (option) burden_loop ::
  "burden_state \<Rightarrow> real list \<Rightarrow> real \<Rightarrow> real \<Rightarrow> real \<Rightarrow> real \<Rightarrow> real list \<Rightarrow> real list
   \<Rightarrow> (error + real list \<times> real list) option"
where
  "burden_loop self time_vector window_hours step_hours end_time current_time
       time_centers burden_values =
     (if current_time \<le> end_time then
        (case calculate_burden_metrics self time_vector current_time
                (current_time + window_hours) of
           Inl e \<Rightarrow> Some (Inl e)
         | Inr r \<Rightarrow>
             burden_loop self time_vector window_hours step_hours end_time
               (current_time + step_hours)
               (time_centers @ [current_time + window_hours / 2])
               (burden_values @ [time_burden r]))
      else Some (Inr (time_centers, burden_values)))"

definition calculate_burden_over_time ::
  "burden_state \<Rightarrow> real list \<Rightarrow> real \<Rightarrow> real \<Rightarrow> (error + real list \<times> real list) option"
where
  "calculate_burden_over_time self time_vector window_hours step_hours =
     (case outside_bounds self of
        None \<Rightarrow> Some (Inl ValueError)
      | Some ob \<Rightarrow>
          if time_vector = [] then Some (Inl IndexError)
          else burden_loop self time_vector window_hours step_hours
                 (last time_vector - window_hours) (hd time_vector) [] [])"

text \<open>
  The order in which main.py and the GUI use a calculator: a fresh object, the state
  computed from the data and the series, then one range query.
\<close>

definition burden_query ::
  "real list \<Rightarrow> real list \<Rightarrow> real list \<Rightarrow> real list \<Rightarrow> real \<Rightarrow> real \<Rightarrow> error + burden_result"
where
  "burden_query data_time data_MAP time_vector mapopt_filled t_start t_end =
     (case calculate_deviation_and_burden BurdenCalculator_init data_time data_MAP
             time_vector mapopt_filled of
        Inl e \<Rightarrow> Inl e
      | Inr st \<Rightarrow> calculate_burden_metrics st time_vector t_start t_end)"

section \<open>Theorems: Fisher transform and weighting\<close>

lemma tanh_half_ln:
  fixes r :: real
  assumes "- 1 < r" and "r < 1"
  shows "tanh (0.5 * ln ((1 + r) / (1 - r))) = r"
proof -
  let ?q = "(1 + r) / (1 - r)"
  have q: "0 < ?q" using assms by simp
  have e: "exp (- 2 * (0.5 * ln ?q)) = inverse ?q"
    using q by (simp add: exp_minus)
  have "tanh (0.5 * ln ?q) = (1 - inverse ?q) / (1 + inverse ?q)"
    using e by (simp only: tanh_real_altdef)
  also have "\<dots> = r" using assms by (simp add: field_simps)
  finally show ?thesis .
qed

text \<open>
  C2. For every correlation value r strictly between -0.999 and 0.999, the inverse Fisher
  transform (tanh) of the forward Fisher transform (clip to +-0.999, then
  0.5 ln((1+r)/(1-r))) is r. Over the reals the round trip is exact; the floating-point
  tolerance of the claim bounds the rounding that the model leaves out.
\<close>

theorem fisher_round_trip:
  "- 0.999 < r \<Longrightarrow> r < 0.999 \<Longrightarrow> inverse_fisher_transform (fisher_transform r) = r"
  unfolding inverse_fisher_transform_def fisher_transform_def FISHER_BOUNDS_def
    np_clip_def Let_def
  using tanh_half_ln[of r] by (simp add: min_def max_def)

theorem fisher_round_trip_witness:
  "- 0.999 < (1/2::real) \<and> (1/2::real) < 0.999 \<and>
   inverse_fisher_transform (fisher_transform (1/2)) = 1/2"
  using fisher_round_trip[of "1/2"] by simp

lemma calculate_weight_finite:
  "calculate_weight (Fin n) (Fin r) = Fin (r * coxWeight_spec n)"
  by (simp add: calculate_weight_def coxWeight_spec_def COX_WEIGHT_THRESHOLD_def flt_sub_def)



text \<open>
  The claim C5 promises the weight 0 above the threshold for every R-squared value. The
  fitting code computes \<open>R2 = 1 - SSE / SST\<close>, which is \<open>-inf\<close> for a vanishing \<open>SST\<close>
  and a positive \<open>SSE\<close> and NaN when both vanish; for these values the weight above the
  threshold is NaN, not 0.
\<close>

theorem calculate_weight_nonfinite_counterexample:
  "flt_gt (Fin 0.5) 0.3 \<and> calculate_weight (Fin 0.5) NInf = NaN \<and>
   calculate_weight (Fin 0.5) NaN = NaN \<and> NaN \<noteq> Fin 0"
  by (simp add: calculate_weight_def COX_WEIGHT_THRESHOLD_def)

section \<open>Theorems: burden queries\<close>

text \<open>
  C10. Both burden queries, the single-range computation and the sliding-window
  computation over time, raise ValueError when the deviation-and-burden state has not
  been computed (\<open>outside_bounds\<close> is still \<open>None\<close>); no result is produced.
\<close>

theorem burden_uninitialized_raises:
  "outside_bounds self = None \<Longrightarrow>
     calculate_burden_metrics self time_vector t_start t_end = Inl ValueError \<and>
     calculate_burden_over_time self time_vector window_hours step_hours
       = Some (Inl ValueError)"
  by (simp add: calculate_burden_metrics_def calculate_burden_over_time_def)

theorem burden_uninitialized_raises_witness:
  "outside_bounds BurdenCalculator_init = None \<and>
   calculate_burden_metrics BurdenCalculator_init [0, 1, 2] 0 2 = Inl ValueError \<and>
   calculate_burden_over_time BurdenCalculator_init [0, 1, 2] 4 1 = Some (Inl ValueError)"
  using burden_uninitialized_raises[of BurdenCalculator_init "[0, 1, 2]" 0 2 4 1]
  by (simp add: BurdenCalculator_init_def)

text \<open>
  C8, as the code has it. On a calculator whose state has been computed and a non-empty
  time grid, a query whose range, clamped to \<open>[time_vector[0], time_vector[-1]]\<close>,
  contains no grid sample returns time burden 0 and area burden ratio 0 and raises
  nothing; this covers every range lying entirely outside the span and every range
  whose start is strictly after its end once clamped. (A clamped range with start
  equal to end is not among them: see the counterexample below.)
\<close>

theorem burden_empty_range_zero:
  assumes "outside_bounds self \<noteq> None" and "time_vector \<noteq> []"
    and "t_end < hd time_vector \<or> last time_vector < t_start
         \<or> min t_end (last time_vector) < max t_start (hd time_vector)
         \<or> \<not> list_ex (\<lambda>t. max t_start (hd time_vector) \<le> t
                            \<and> t \<le> min t_end (last time_vector)) time_vector"
  shows "calculate_burden_metrics self time_vector t_start t_end =
           Inr \<lparr>t_start_hr = max t_start (hd time_vector),
                t_end_hr = min t_end (last time_vector),
                time_burden = 0, area_burden_ratio = 0\<rparr>"
proof -
  have "\<not> list_ex (\<lambda>t. max t_start (hd time_vector) \<le> t
                        \<and> t \<le> min t_end (last time_vector)) time_vector"
    using assms(3) by (auto simp add: list_ex_iff)
  then have "\<not> list_ex (\<lambda>b. b)
      (map (\<lambda>t. max t_start (hd time_vector) \<le> t \<and> t \<le> min t_end (last time_vector))
         time_vector)"
    by (simp add: list_ex_iff)
  then show ?thesis
    using assms(1,2)
    by (auto simp add: calculate_burden_metrics_def Let_def split: option.splits)
qed

text \<open>
  A reachable state for the examples: MAP 70, 90, 70 at hours 0, 1, 2 against a constant
  MAPopt of 70, so that only the middle sample leaves the band.
\<close>

definition example_burden_state :: burden_state where
  "example_burden_state =
     \<lparr>deviation = Some [0, 20, 0], lower_bound = Some [65, 65, 65],
      upper_bound = Some [75, 75, 75], outside_upper = Some [False, True, False],
      outside_lower = Some [False, False, False],
      outside_bounds = Some [False, True, False], excess_above = Some [0, 15, 0],
      excess_below = Some [0, 0, 0]\<rparr>"

lemma example_burden_state_reached:
  "calculate_deviation_and_burden BurdenCalculator_init [0, 1, 2] [70, 90, 70] [0, 1, 2]
     [70, 70, 70] = Inr example_burden_state"
  by (simp add: calculate_deviation_and_burden_def BurdenCalculator_init_def np_interp_def
      example_burden_state_def BURDEN_BOUNDS_def np_clip_def DEVIATION_MIN_def
      DEVIATION_MAX_def Let_def)

theorem burden_empty_range_zero_witness:
  "calculate_burden_metrics example_burden_state [0, 1, 2] 5 9 =
     Inr \<lparr>t_start_hr = 5, t_end_hr = 2, time_burden = 0, area_burden_ratio = 0\<rparr> \<and>
   calculate_burden_metrics example_burden_state [0, 1, 2] (1/4) (3/4) =
     Inr \<lparr>t_start_hr = 1/4, t_end_hr = 3/4, time_burden = 0, area_burden_ratio = 0\<rparr>"
  using burden_empty_range_zero[of example_burden_state "[0, 1, 2]" 9 5]
    burden_empty_range_zero[of example_burden_state "[0, 1, 2]" "3/4" "1/4"]
  by (simp add: example_burden_state_def)

text \<open>
  The claim C8 lists "start >= end after clamping" among the ranges that return zero
  burden. With start equal to end on a grid sample the clamped range holds that one
  sample, and the code evaluates it: here the sample at hour 1 lies outside the band,
  and the query [1, 1] returns a time burden of 100.
\<close>

theorem burden_start_eq_end_counterexample:
  "max 1 (hd [0, 1, 2::real]) \<ge> min 1 (last [0, 1, 2::real]) \<and>
   burden_query [0, 1, 2] [70, 90, 70] [0, 1, 2] [70, 70, 70] 1 1 =
     Inr \<lparr>t_start_hr = 1, t_end_hr = 1, time_burden = 100, area_burden_ratio = 0\<rparr>"
  by (simp add: burden_query_def calculate_deviation_and_burden_def
      BurdenCalculator_init_def np_interp_def calculate_burden_metrics_def
      calculate_area_burden_def mask_select_def Let_def BURDEN_BOUNDS_def np_clip_def
      DEVIATION_MIN_def DEVIATION_MAX_def)

section \<open>Theorems: one evaluation time\<close>

lemma collect_append:
  "collect (xs @ ys) =
     (case collect xs of Inl e \<Rightarrow> Inl e
      | Inr vs \<Rightarrow> (case collect ys of Inl e \<Rightarrow> Inl e | Inr ws \<Rightarrow> Inr (vs @ ws)))"
proof (induction xs)
  case Nil
  show ?case by (simp split: sum.splits)
next
  case (Cons x xs)
  then show ?case by (cases x) (auto split: sum.splits)
qed

lemma map_filter_append: "List.map_filter f (xs @ ys) = List.map_filter f xs @ List.map_filter f ys"
  by (simp add: List.map_filter_def)

lemma hist_loop_collect:
  "hist_loop corrcoef args w hs (ms, ws, fs) =
     (case collect (map (\<lambda>h. calculate_single_fit corrcoef (a_t_now args) (a_t args) (a_MAP args)
                            (a_rSO2 args) w h (a_bins args) (a_bin_centers args)) hs) of
        Inl e \<Rightarrow> Inl e
      | Inr rs \<Rightarrow>
          Inr (ms @ map fst (List.map_filter (\<lambda>r. r) rs),
               ws @ map (\<lambda>p. fst (snd p)) (List.map_filter (\<lambda>r. r) rs),
               fs @ map (\<lambda>p. snd (snd p)) (List.map_filter (\<lambda>r. r) rs)))"
proof (induction hs arbitrary: ms ws fs)
  case Nil
  show ?case by (simp add: List.map_filter_def)
next
  case (Cons h hs)
  show ?case
    by (simp add: Cons.IH List.map_filter_def split: sum.splits option.splits prod.splits)
qed

lemma win_loop_collect:
  "win_loop corrcoef args wins (ms, ws, fs) =
     (case collect (map (\<lambda>(cox_win_min, hist_hr).
                          calculate_single_fit corrcoef (a_t_now args) (a_t args) (a_MAP args)
                            (a_rSO2 args) (cox_win_min / 60) hist_hr (a_bins args)
                            (a_bin_centers args))
                      (List.product wins (a_history_windows_hr args))) of
        Inl e \<Rightarrow> Inl e
      | Inr rs \<Rightarrow>
          Inr (ms @ map fst (List.map_filter (\<lambda>r. r) rs),
               ws @ map (\<lambda>p. fst (snd p)) (List.map_filter (\<lambda>r. r) rs),
               fs @ map (\<lambda>p. snd (snd p)) (List.map_filter (\<lambda>r. r) rs)))"
proof (induction wins arbitrary: ms ws fs)
  case Nil
  show ?case by (simp add: List.map_filter_def)
next
  case (Cons w wins)
  show ?case
    by (simp add: Cons.IH hist_loop_collect collect_append map_filter_append comp_def
        split: sum.splits)
qed

lemma zip_fst_snd_sum:
  "sum_list (map (\<lambda>q. fst q * snd q) (zip (map fst ps) (map (\<lambda>p. fst (snd p)) ps)))
     = sum_list (map (\<lambda>p. fst p * fst (snd p)) ps)"
  by (induction ps) auto

text \<open>
  C3. At every evaluation time the estimate is the weighted mean
  sum(candidate * weight) / sum(weight) over all (candidate, weight) pairs that the
  (window, history) combinations produced, with the diagnostics of these fits; when no
  pair was produced the estimate is NaN and the diagnostics list is empty. (An
  exception of a combination, raised only for an empty time array or a zero window,
  leaves the function as it is.)
\<close>

theorem process_time_point_weighted_mean:
  "process_time_point corrcoef args =
     (case combination_fits corrcoef args of
        Inl e \<Rightarrow> Inl e
      | Inr fits \<Rightarrow>
          if fits = [] then Inr (a_k args, None, [])
          else Inr (a_k args,
                    Some (sum_list (map (\<lambda>(c, w, fd). c * w) fits)
                            / sum_list (map (\<lambda>(c, w, fd). w) fits)),
                    map (\<lambda>(c, w, fd). fd) fits))"
  unfolding process_time_point_def combination_fits_def
  by (simp add: win_loop_collect[of _ args _ "[]" "[]" "[]", simplified] zip_fst_snd_sum
      case_prod_unfold split: sum.splits)

lemma sweep_has_72_combinations:
  "length (List.product COX_WINDOWS_MIN HISTORY_WINDOWS_HR) = 72"
  by (simp add: COX_WINDOWS_MIN_def HISTORY_WINDOWS_HR_def)

section \<open>Theorems: accepted curve fits\<close>

lemma np_min_Min: "xs \<noteq> [] \<Longrightarrow> np_min xs = Min (set xs)"
  by (cases xs) (simp_all add: np_min_def Min.set_eq_fold[symmetric])

lemma np_max_Max: "xs \<noteq> [] \<Longrightarrow> np_max xs = Max (set xs)"
  by (cases xs) (simp_all add: np_max_def Max.set_eq_fold[symmetric])

lemma np_clip_bounds: "lo \<le> hi \<Longrightarrow> lo \<le> np_clip a lo hi \<and> np_clip a lo hi \<le> hi"
  by (simp add: np_clip_def)

lemma count_valid_bins:
  "length bs = length cs \<Longrightarrow>
     length (List.map_filter valid_bin (zip cs bs)) = length (filter (\<lambda>v. v \<noteq> None) bs)"
proof (induction cs bs rule: list_induct2')
  case (4 c cs b bs)
  then show ?case by (cases b) (simp_all add: List.map_filter_def)
qed (simp_all add: List.map_filter_def)

lemma fit_binned_accepted:
  assumes "fit_binned win_hr hist_hr bin_centers binned_cox = Some (mapopt, weight, fit)"
  defines "xs \<equiv> map fst (List.map_filter valid_bin (zip bin_centers binned_cox))"
  shows "1 / 10 ^ 6 < weight" and "MAP_OPT_MIN \<le> mapopt" and "mapopt \<le> MAP_OPT_MAX"
    and "fd_bin_centers fit = xs" and "3 \<le> length xs"
    and "np_min xs \<le> mapopt" and "mapopt \<le> np_max xs"
    and "fd_mapopt fit = mapopt" and "fd_weight fit = weight"
proof -
  from assms(1) have len: "length bin_centers = length binned_cox"
    and cnt: "3 \<le> length (filter (\<lambda>v. v \<noteq> None) binned_cox)"
    by (auto simp add: fit_binned_def Let_def split: if_splits)
  from count_valid_bins[OF len[symmetric]] cnt show l3: "3 \<le> length xs"
    by (simp add: xs_def)
  then have ne: "xs \<noteq> []" by auto
  have "np_min xs \<le> np_max xs"
    using ne by (simp add: np_min_Min np_max_Max)
  note cb = np_clip_bounds[OF this]
  from assms(1) obtain a where m: "mapopt = np_clip a (np_min xs) (np_max xs)"
    by (auto simp add: fit_binned_def Let_def xs_def split: if_splits option.splits flt.splits)
  show "np_min xs \<le> mapopt" "mapopt \<le> np_max xs"
    using cb[of a] m by simp_all
  from assms(1) show "1 / 10 ^ 6 < weight" "MAP_OPT_MIN \<le> mapopt" "mapopt \<le> MAP_OPT_MAX"
    "fd_bin_centers fit = xs" "fd_mapopt fit = mapopt" "fd_weight fit = weight"
    by (auto simp add: fit_binned_def Let_def xs_def split: if_splits option.splits flt.splits)
qed

text \<open>
  C4. Every accepted curve fit (one returned, hence with a weight above 1e-6) has its
  candidate MAPopt in [40, 90] mmHg and between the smallest and the largest centre of
  the bins that contributed a point to the quadratic fit.
\<close>

theorem accepted_fit_in_range:
  assumes "fit_binned win_hr hist_hr bin_centers binned_cox = Some (mapopt, weight, fit)"
  shows "0 < weight \<and> 40 \<le> mapopt \<and> mapopt \<le> 90 \<and>
         fd_mapopt fit = mapopt \<and>
         fd_bin_centers fit = contributing_centers bin_centers binned_cox \<and>
         Min (set (contributing_centers bin_centers binned_cox)) \<le> mapopt \<and>
         mapopt \<le> Max (set (contributing_centers bin_centers binned_cox))"
proof -
  note f = fit_binned_accepted[OF assms]
  have ne: "contributing_centers bin_centers binned_cox \<noteq> []"
    using f(5) by (auto simp add: contributing_centers_def)
  have "0 < weight" using f(1) by (simp add: order_less_trans[rotated])
  then show ?thesis
    using f(2-4,6-8) np_min_Min[OF ne] np_max_Max[OF ne]
    by (simp add: contributing_centers_def MAP_OPT_MIN_def MAP_OPT_MAX_def)
qed

lemma fisher_transform_zero: "fisher_transform 0 = 0"
  by (simp add: fisher_transform_def np_clip_def FISHER_BOUNDS_def)

lemma fisher_half_pos: "0 < fisher_transform (1/2)"
  by (simp add: fisher_transform_def np_clip_def FISHER_BOUNDS_def)

lemma example_polyfit: "np_polyfit2 [125/2, 135/2, 145/2] [L, 0, L] = Some (L / 25, - (27 * L / 5), 729 * L / 4)"
  by (simp add: np_polyfit2_def det3_def Let_def power2_eq_square power3_eq_cube power4_eq_xxxx field_simps)

lemma example_bins: "List.map_filter valid_bin (zip MAP_BIN_CENTERS example_binned_cox) = [(125/2, 1/2), (135/2, 0), (145/2, 1/2)]"
  by (simp add: MAP_BIN_CENTERS_def MAP_BINS_def List.map_filter_simps example_binned_cox_def)

lemma example_counts: "length (filter (\<lambda>v. v \<noteq> None) example_binned_cox) = 3" "length MAP_BIN_CENTERS = length example_binned_cox"
  by (simp_all add: example_binned_cox_def MAP_BIN_CENTERS_def MAP_BINS_def del: not_None_eq)

lemma example_fit:
  "fit_binned (1/6) 1 MAP_BIN_CENTERS example_binned_cox
   = Some (135/2, 1,
       \<lparr>fd_win_hr = 1/6, fd_hist_hr = 1, fd_bin_centers = [125/2, 135/2, 145/2],
        fd_binned_cox = [1/2, 0, 1/2],
        fd_binned_cox_fisher = [fisher_transform (1/2), 0, fisher_transform (1/2)],
        fd_coeffs = (fisher_transform (1/2) / 25, - (27 * fisher_transform (1/2) / 5),
                     729 * fisher_transform (1/2) / 4),
        fd_mapopt = 135/2, fd_nadir_cox = 0, fd_r2 = 1, fd_weight = 1\<rparr>)"
proof -
  define L where "L = fisher_transform (1/2)"
  have L: "0 < L" using fisher_half_pos by (simp add: L_def)
  have xs: "map fst [(125/2, 1/2), (135/2, 0), (145/2, 1/2::real)] = [125/2, 135/2, 145/2::real]"
    and cox: "map snd [(125/2::real, 1/2), (135/2, 0), (145/2, 1/2::real)] = [1/2, 0, 1/2]"
    by simp_all
  have ys: "map fisher_transform [1/2, 0, 1/2] = [L, 0, L]"
    by (simp add: fisher_transform_zero L_def)
  have clip: "np_clip (- fst (snd (L / 25, - (27 * L / 5), 729 * L / 4))
                 / (2 * fst (L / 25, - (27 * L / 5), 729 * L / 4)))
       (np_min [125/2, 135/2, 145/2]) (np_max [125/2, 135/2, 145/2]) = 135/2"
    using L by (simp add: np_clip_def np_min_def np_max_def)
  have pos: "fst (L / 25, - (27 * L / 5), 729 * L / 4) > 0"
    using L by simp
  have pv: "np_polyval (L / 25, - (27 * L / 5), 729 * L / 4) (135/2) = 0"
    by (simp add: power2_eq_square)
  have yfit: "map (np_polyval (L / 25, - (27 * L / 5), 729 * L / 4)) [125/2, 135/2, 145/2] = [L, 0, L]"
    by (simp add: power2_eq_square)
  have sse: "sum_list (map (\<lambda>(y, f). (y - f) ^ 2) (zip [L, 0, L] [L, 0, L])) = 0"
    by simp
  have sst: "sum_list (map (\<lambda>y. (y - np_mean_real [L, 0, L]) ^ 2) [L, 0, L]) = 2 * L ^ 2 / 3"
    by (simp add: np_mean_real_def power2_eq_square field_simps)
  have sst0: "(2 * L ^ 2 / 3 = 0) = False" using L by simp
  have w: "calculate_weight (Fin (inverse_fisher_transform 0)) (Fin (1 - 0 / (2 * L ^ 2 / 3)))
             = Fin 1"
    by (simp add: inverse_fisher_transform_def calculate_weight_finite coxWeight_spec_def)
  have rng: "MAP_OPT_MIN \<le> 135/2 \<and> (135/2::real) \<le> MAP_OPT_MAX"
    by (simp add: MAP_OPT_MIN_def MAP_OPT_MAX_def)
  show ?thesis
    unfolding fit_binned_def example_bins example_counts Let_def
    apply (simp only: xs cox ys example_polyfit option.case pos if_True clip rng yfit sse sst sst0 if_False pv w
        flt.case)
    apply (simp add: L_def inverse_fisher_transform_def)
    done
qed

theorem accepted_fit_in_range_witness:
  "fit_binned (1/6) 1 MAP_BIN_CENTERS example_binned_cox
     = Some (135/2, 1,
         \<lparr>fd_win_hr = 1/6, fd_hist_hr = 1, fd_bin_centers = [125/2, 135/2, 145/2],
          fd_binned_cox = [1/2, 0, 1/2],
          fd_binned_cox_fisher = [fisher_transform (1/2), 0, fisher_transform (1/2)],
          fd_coeffs = (fisher_transform (1/2) / 25, - (27 * fisher_transform (1/2) / 5),
                       729 * fisher_transform (1/2) / 4),
          fd_mapopt = 135/2, fd_nadir_cox = 0, fd_r2 = 1, fd_weight = 1\<rparr>) \<and>
   contributing_centers MAP_BIN_CENTERS example_binned_cox = [125/2, 135/2, 145/2] \<and>
   Min (set (contributing_centers MAP_BIN_CENTERS example_binned_cox)) \<le> 135/2 \<and>
   135/2 \<le> Max (set (contributing_centers MAP_BIN_CENTERS example_binned_cox))"
  using accepted_fit_in_range[OF example_fit] example_fit
  by (simp add: contributing_centers_def example_bins)

section \<open>Theorems: correlation primitive and sliding windows\<close>








text \<open>
  In exact arithmetic an array that is constant over the finite pairs has variance zero
  and the coefficient is undefined. (In doubles this is so only when the computed
  variance is exactly zero, see the remark on \<open>np.corrcoef\<close> above.)
\<close>

lemma sum_list_const_diff:
  "list_all (\<lambda>v. v = c) xs \<Longrightarrow> sum_list (map (\<lambda>x. (x - c) * (x - c)) xs) = (0::real)"
  by (induction xs) auto

lemma mean_const: "xs \<noteq> [] \<Longrightarrow> list_all (\<lambda>v. v = c) xs \<Longrightarrow> np_mean_real xs = c"
proof -
  assume ne: "xs \<noteq> []" and a: "list_all (\<lambda>v. v = c) xs"
  have "sum_list xs = real (length xs) * c"
    using a by (induction xs) (auto simp add: algebra_simps)
  then show ?thesis using ne by (simp add: np_mean_real_def)
qed

lemma corrcoef_exact_constant:
  "xs \<noteq> [] \<Longrightarrow> list_all (\<lambda>v. v = c) xs \<Longrightarrow> corrcoef_exact xs ys = NaN"
  "ys \<noteq> [] \<Longrightarrow> list_all (\<lambda>v. v = c) ys \<Longrightarrow> corrcoef_exact xs ys = NaN"
  by (simp_all add: corrcoef_exact_def Let_def mean_const sum_list_const_diff)



text \<open>
  The claim C6 has the correlation primitive return NaN whenever the sample count is
  below the minimum-points threshold of 10. Called with three samples, fewer than 10,
  the primitive returns a number: the correlation 1 of an array with itself.
\<close>

theorem fast_correlation_threshold_counterexample:
  "length [Fin 1, Fin 2, Fin 3 :: flt] < MIN_DATA_POINTS \<and>
   fast_correlation corrcoef_exact [Fin 1, Fin 2, Fin 3] [Fin 1, Fin 2, Fin 3] = Fin 1 \<and>
   Fin 1 \<noteq> NaN"
  by (simp add: fast_correlation_def MIN_CORRELATION_POINTS_def MIN_DATA_POINTS_def
      finite_pairs_def List.map_filter_simps corrcoef_exact_def np_mean_real_def Let_def
      np_clip_def)

text \<open>
  C7. For every (window, history) combination at every evaluation time (so the time
  array is not empty): the sliding-window collection yields no observation when fewer
  than 60 raw samples lie inside the lookback period, and when the collection results
  in fewer than 5 correlation observations the combination returns no fit and raises
  nothing.
\<close>

theorem sliding_window_thresholds:
  "(length (filter (in_window (t_now - hist_hr) t_now) (rows t MAP rSO2)) < 60
      \<longrightarrow> calculate_sliding_window_correlations corrcoef t MAP rSO2 win_hr hist_hr t_now
            = Inr ([], [])) \<and>
   (t \<noteq> [] \<and> calculate_sliding_window_correlations corrcoef t MAP rSO2 win_hr hist_hr t_now
                = Inr (cox_vals, map_vals) \<and> length map_vals < 5
      \<longrightarrow> calculate_single_fit corrcoef t_now t MAP rSO2 win_hr hist_hr bins bin_centers
            = Inr None)"
  by (cases t)
     (simp_all add: calculate_sliding_window_correlations_def calculate_single_fit_def Let_def)

lemma const_lookback_samples:
  "length (filter (in_window (1 - 1) 1) (rows const_t const_MAP const_rSO2)) = 60"
  by (simp add: const_t_def const_MAP_def const_rSO2_def rows_def in_window_def upt_rec
      eval_nat_numeral)

lemma const_sliding:
  "calculate_sliding_window_correlations corrcoef_exact const_t const_MAP const_rSO2 (1/2) 1 1
     = Inr ([], [])"
  by (simp add: calculate_sliding_window_correlations_def const_t_def const_MAP_def
      const_rSO2_def rows_def in_window_def eval_nat_numeral Let_def py_int_def
      List.map_filter_simps window_observation_def MIN_DATA_POINTS_def fast_correlation_def
      MIN_CORRELATION_POINTS_def finite_pairs_def corrcoef_exact_def np_mean_real_def upt_rec)

theorem sliding_window_thresholds_witness:
  "length (filter (in_window (2 - 1) 2)
             (rows [0, 1, 2] [Fin 70, Fin 80, Fin 90] [Fin 60, Fin 61, Fin 62])) = 1 \<and>
   calculate_sliding_window_correlations corrcoef_exact [0, 1, 2] [Fin 70, Fin 80, Fin 90]
       [Fin 60, Fin 61, Fin 62] (1/6) 1 2 = Inr ([], []) \<and>
   length (filter (in_window (1 - 1) 1) (rows const_t const_MAP const_rSO2)) = 60 \<and>
   calculate_sliding_window_correlations corrcoef_exact const_t const_MAP const_rSO2 (1/2) 1 1
     = Inr ([], []) \<and>
   calculate_single_fit corrcoef_exact 1 const_t const_MAP const_rSO2 (1/2) 1 MAP_BINS
     MAP_BIN_CENTERS = Inr None"
proof -
  have short: "length (filter (in_window (2 - 1) 2)
      (rows [0, 1, 2] [Fin 70, Fin 80, Fin 90] [Fin 60, Fin 61, Fin 62])) = 1"
    by (simp add: rows_def in_window_def)
  have ne: "const_t \<noteq> []"
    by (simp add: const_t_def)
  show ?thesis
    using sliding_window_thresholds[where corrcoef = corrcoef_exact and t_now = 2
        and hist_hr = 1 and t = "[0, 1, 2]" and MAP = "[Fin 70, Fin 80, Fin 90]"
        and ?rSO2.0 = "[Fin 60, Fin 61, Fin 62]" and win_hr = "1/6" and cox_vals = "[]"
        and map_vals = "[]" and bins = MAP_BINS and bin_centers = MAP_BIN_CENTERS]
      sliding_window_thresholds[where corrcoef = corrcoef_exact and t_now = 1
        and hist_hr = 1 and t = const_t and MAP = const_MAP and ?rSO2.0 = const_rSO2
        and win_hr = "1/2" and cox_vals = "[]" and map_vals = "[]" and bins = MAP_BINS
        and bin_centers = MAP_BIN_CENTERS]
      short ne const_lookback_samples const_sliding
    by simp
qed

section \<open>Theorems: the scheduler\<close>

lemma process_time_point_index:
  "process_time_point corrcoef a = Inr r \<Longrightarrow> fst r = a_k a"
  by (auto simp add: process_time_point_def split: sum.splits prod.splits if_splits)

lemma collect_Inr: "collect xs = Inr vs \<Longrightarrow> xs = map Inr vs"
proof (induction xs arbitrary: vs)
  case Nil
  then show ?case by simp
next
  case (Cons x xs)
  then show ?case by (cases x) (auto split: sum.splits)
qed

lemma collect_indices:
  assumes "collect (map (process_time_point corrcoef) as) = Inr rs"
  shows "map fst rs = map a_k as" and "length rs = length as"
proof -
  from collect_Inr[OF assms] have eq: "map (process_time_point corrcoef) as = map Inr rs" .
  then show len: "length rs = length as"
    by (metis length_map)
  show "map fst rs = map a_k as"
  proof (rule nth_equalityI)
    show "length (map fst rs) = length (map a_k as)" using len by simp
  next
    fix m assume "m < length (map fst rs)"
    then have m: "m < length as" "m < length rs" using len by simp_all
    from eq have "map (process_time_point corrcoef) as ! m = map Inr rs ! m" by simp
    then have "process_time_point corrcoef (as ! m) = Inr (rs ! m)" using m by simp
    from process_time_point_index[OF this] show "map fst rs ! m = map a_k as ! m"
      using m by simp
  qed
qed

lemma store_consecutive:
  assumes "map fst rs = [i ..< i + length rs]"
    and "i + length rs \<le> length (mapopt_series st)"
    and "length (all_fits_data st) = length (mapopt_series st)"
  shows "store_results rs st =
           (st\<lparr>mapopt_series := take i (mapopt_series st) @ map (\<lambda>r. fst (snd r)) rs
                                   @ drop (i + length rs) (mapopt_series st),
               all_fits_data := take i (all_fits_data st) @ map (\<lambda>r. snd (snd r)) rs
                                   @ drop (i + length rs) (all_fits_data st)\<rparr>, True)"
  using assms
proof (induction rs arbitrary: i st)
  case Nil
  then show ?case by simp
next
  case (Cons r rs)
  obtain k v f where r: "r = (k, v, f)" by (cases r)
  have "[i ..< i + length (r # rs)] = i # [Suc i ..< Suc i + length rs]"
    by (subst upt_rec) simp
  with Cons.prems(1) have k: "k = i" and rest: "map fst rs = [Suc i ..< Suc i + length rs]"
    by (simp_all add: r)
  let ?st = "st\<lparr>mapopt_series := (mapopt_series st)[i := v],
                 all_fits_data := (all_fits_data st)[i := f]\<rparr>"
  have ih: "store_results rs ?st =
      (?st\<lparr>mapopt_series := take (Suc i) (mapopt_series ?st) @ map (\<lambda>r. fst (snd r)) rs
                                   @ drop (Suc i + length rs) (mapopt_series ?st),
            all_fits_data := take (Suc i) (all_fits_data ?st) @ map (\<lambda>r. snd (snd r)) rs
                                   @ drop (Suc i + length rs) (all_fits_data ?st)\<rparr>, True)"
    using Cons.prems(2,3) by (intro Cons.IH[OF rest]) simp_all
  have il: "i < length (mapopt_series st)" "i < length (all_fits_data st)"
    using Cons.prems(2,3) by simp_all
  show ?case
    using il ih by (simp add: r k take_Suc_conv_app_nth)
qed

lemma store_lengths:
  "store_results rs st = (st', b) \<Longrightarrow>
     length (mapopt_series st') = length (mapopt_series st) \<and>
     length (all_fits_data st') = length (all_fits_data st)"
proof (induction rs arbitrary: st)
  case Nil
  then show ?case by simp
next
  case (Cons r rs)
  obtain k v f where r: "r = (k, v, f)" by (cases r)
  show ?case
  proof (cases "k < length (mapopt_series st) \<and> k < length (all_fits_data st)")
    case True
    with Cons.prems have "store_results rs
        (st\<lparr>mapopt_series := (mapopt_series st)[k := v],
            all_fits_data := (all_fits_data st)[k := f]\<rparr>) = (st', b)"
      by (simp add: r)
    from Cons.IH[OF this] show ?thesis by simp
  next
    case False
    with Cons.prems show ?thesis by (auto simp add: r)
  qed
qed


lemma fallback_consecutive:
  assumes "map a_k as = [i ..< i + length as]"
    and "i + length as \<le> length (mapopt_series st)"
    and "length (all_fits_data st) = length (mapopt_series st)"
  shows "map_sum (\<lambda>e. e) arrays (fallback_loop corrcoef cb n0 j as st) =
           (case collect (map (process_time_point corrcoef) as) of
              Inl e \<Rightarrow> Inl e
            | Inr rs \<Rightarrow>
                Inr (take i (mapopt_series st) @ map (\<lambda>r. fst (snd r)) rs
                       @ drop (i + length rs) (mapopt_series st),
                     take i (all_fits_data st) @ map (\<lambda>r. snd (snd r)) rs
                       @ drop (i + length rs) (all_fits_data st)))"
  using assms
proof (induction as arbitrary: i j st)
  case Nil
  then show ?case by (simp add: arrays_def)
next
  case (Cons a as)
  have "[i ..< i + length (a # as)] = i # [Suc i ..< Suc i + length as]"
    by (subst upt_rec) simp
  with Cons.prems(1) have k: "a_k a = i" and rest: "map a_k as = [Suc i ..< Suc i + length as]"
    by simp_all
  have il: "i < length (mapopt_series st)" "i < length (all_fits_data st)"
    using Cons.prems(2,3) by simp_all
  show ?case
  proof (cases "process_time_point corrcoef a")
    case (Inl e)
    then show ?thesis by simp
  next
    case (Inr r)
    obtain k v f where r: "r = (k, v, f)" by (cases r)
    from process_time_point_index[OF Inr] have ki: "k = i" by (simp add: r k)
    let ?st = "st\<lparr>mapopt_series := (mapopt_series st)[i := v],
                   all_fits_data := (all_fits_data st)[i := f]\<rparr>"
    let ?st' = "if cb \<and> j mod 25 = 0
                then ?st\<lparr>progress := progress ?st @ [real j / real n0 * 100]\<rparr> else ?st"
    have pre: "Suc i + length as \<le> length (mapopt_series ?st')"
      "length (all_fits_data ?st') = length (mapopt_series ?st')"
      using Cons.prems(2,3) by simp_all
    have ms: "mapopt_series ?st' = (mapopt_series st)[i := v]"
      and fs: "all_fits_data ?st' = (all_fits_data st)[i := f]"
      by simp_all
    note ih = Cons.IH[OF rest pre, of "j + 1"]
    have step: "fallback_loop corrcoef cb n0 j (a # as) st = fallback_loop corrcoef cb n0 (j + 1) as ?st'"
      using il by (simp add: Inr r ki Let_def)
    show ?thesis
      unfolding step ih ms fs
      using il by (simp add: Inr r take_Suc_conv_app_nth split: sum.splits)
  qed
qed

lemma chunk_loop_lengths:
  "chunk_loop corrcoef pool cb args tc j st = (st', b) \<Longrightarrow>
     length (mapopt_series st') = length (mapopt_series st) \<and>
     length (all_fits_data st') = length (all_fits_data st)"
proof (induction "tc - j" arbitrary: j st rule: less_induct)
  case less
  show ?case
  proof (cases "j < tc \<and> j * CHUNK_SIZE < length args \<and> pool \<noteq> DispatchFails j")
    case False
    with less.prems show ?thesis
      by (subst (asm) chunk_loop.simps) (auto simp add: Let_def split: if_splits)
  next
    case True
    let ?chunk = "take (min ((j + 1) * CHUNK_SIZE) (length args) - j * CHUNK_SIZE)
                    (drop (j * CHUNK_SIZE) args)"
    show ?thesis
    proof (cases "collect (map (process_time_point corrcoef) ?chunk)")
      case (Inl e)
      with True less.prems show ?thesis
        by (subst (asm) chunk_loop.simps) (simp add: Let_def)
    next
      case (Inr results)
      obtain st1 ok where s: "store_results results st = (st1, ok)"
        by (cases "store_results results st")
      note sl = store_lengths[OF s]
      show ?thesis
      proof (cases ok)
        case False
        with True less.prems Inr s sl show ?thesis
          by (subst (asm) chunk_loop.simps) (simp add: Let_def)
      next
        case ok: True
        let ?st = "if cb then st1\<lparr>progress := progress st1 @
                       [real (j + 1) / real tc * 100]\<rparr> else st1"
        from True less.prems Inr s ok
        have rec: "chunk_loop corrcoef pool cb args tc (j + 1) ?st = (st', b)"
          by (subst (asm) chunk_loop.simps) (simp add: Let_def)
        have "tc - (j + 1) < tc - j" using True by arith
        from less.hyps[OF this rec] sl show ?thesis by simp
      qed
    qed
  qed
qed


lemma chunk_indices:
  assumes "map a_k args = [0 ..< length args]" and "s < length args"
  shows "map a_k (take c (drop s args)) = [s ..< s + length (take c (drop s args))]"
proof -
  have "map a_k (take c (drop s args)) = take c (drop s (map a_k args))"
    by (simp add: take_map drop_map)
  also have "\<dots> = take c [s ..< length args]"
    by (simp add: assms(1))
  also have "\<dots> = [s ..< s + min c (length args - s)]"
    using assms(2) by (cases "c \<le> length args - s") (simp_all add: min_def)
  finally show ?thesis by (simp add: min.commute)
qed

lemma splice_length:
  "s + length ys \<le> length xs \<Longrightarrow>
     length (take s xs @ ys @ drop (s + length ys) xs) = length xs"
  by simp

lemma splice_take:
  assumes "s + length ys \<le> length xs" and "length ys \<le> c"
    and "length ys = c \<or> s + length ys = length xs"
  shows "take (s + c) (take s xs @ ys @ drop (s + length ys) xs) = take s xs @ ys"
proof -
  have s: "s \<le> length xs" using assms(1) by simp
  from assms(3) show ?thesis
  proof
    assume "length ys = c"
    then show ?thesis using s by (simp add: min_absorb2)
  next
    assume e: "s + length ys = length xs"
    then have "drop (s + length ys) xs = []" by simp
    then show ?thesis using s e assms(2) by (simp add: min_absorb2)
  qed
qed

lemma chunk_loop_complete:
  assumes ks: "map a_k args = [0 ..< length args]"
    and tc: "tc = length args div CHUNK_SIZE + 1"
    and len: "length (mapopt_series st) = length args"
             "length (all_fits_data st) = length args"
    and dn: "collect (map (process_time_point corrcoef) (take (j * CHUNK_SIZE) args)) = Inr drs"
            "take (j * CHUNK_SIZE) (mapopt_series st) = map (\<lambda>r. fst (snd r)) drs"
            "take (j * CHUNK_SIZE) (all_fits_data st) = map (\<lambda>r. snd (snd r)) drs"
    and run: "chunk_loop corrcoef pool cb args tc j st = (st', True)"
  shows "worker_results corrcoef args = Inr (arrays st')"
  using len dn run
proof (induction "tc - j" arbitrary: j st drs rule: less_induct)
  case less
  let ?s = "j * CHUNK_SIZE"
  show ?case
  proof (cases "j < tc \<and> ?s < length args")
    case False
    then have all: "take ?s args = args"
      "take ?s (mapopt_series st) = mapopt_series st"
      "take ?s (all_fits_data st) = all_fits_data st"
    proof -
      have "length args \<le> ?s"
      proof (cases "j < tc")
        case True
        with False show ?thesis by simp
      next
        case False
        then have "tc \<le> j" by simp
        then have a: "tc * CHUNK_SIZE \<le> ?s" by (rule mult_le_mono1)
        have b: "length args < tc * CHUNK_SIZE"
          unfolding tc CHUNK_SIZE_def
          by presburger
        from a b show ?thesis by (rule order.strict_implies_order[OF order.strict_trans2, rotated])
      qed
      then show "take ?s args = args"
        "take ?s (mapopt_series st) = mapopt_series st"
        "take ?s (all_fits_data st) = all_fits_data st"
        using less.prems(1,2) by simp_all
    qed
    from False less.prems(6) have "st' = st"
      by (subst (asm) chunk_loop.simps) (auto simp add: Let_def split: if_splits)
    then show ?thesis
      using less.prems(3,4,5) all by (simp add: worker_results_def arrays_def)
  next
    case True
    let ?chunk = "take (min ((j + 1) * CHUNK_SIZE) (length args) - ?s) (drop ?s args)"
    have chunk: "?chunk = take CHUNK_SIZE (drop ?s args)"
      using True by (cases "(j + 1) * CHUNK_SIZE \<le> length args") (simp_all add: min_def)
    from True less.prems(6) have nf: "pool \<noteq> DispatchFails j"
      by (subst (asm) chunk_loop.simps) (auto simp add: Let_def split: if_splits)
    show ?thesis
    proof (cases "collect (map (process_time_point corrcoef) ?chunk)")
      case (Inl e)
      with True nf less.prems(6) show ?thesis
        by (subst (asm) chunk_loop.simps) (simp add: Let_def)
    next
      case (Inr results)
      note ci = collect_indices[OF Inr]
      have idx: "map fst results = [?s ..< ?s + length results]"
        using chunk_indices[OF ks, of ?s] True ci by simp
      have rl: "length results = min CHUNK_SIZE (length args - ?s)"
        using ci(2) chunk by simp
      have sl: "?s < length args" using True by simp
      have se: "?s + length results \<le> length args"
        using rl sl by arith
      have fit: "?s + length results \<le> length (mapopt_series st)"
        using se less.prems(1) by simp
      have fl: "length (all_fits_data st) = length (mapopt_series st)"
        using less.prems(1,2) by simp
      note sc = store_consecutive[OF idx fit fl]
      let ?st1 = "st\<lparr>mapopt_series := take ?s (mapopt_series st) @ map (\<lambda>r. fst (snd r)) results
                                   @ drop (?s + length results) (mapopt_series st),
               all_fits_data := take ?s (all_fits_data st) @ map (\<lambda>r. snd (snd r)) results
                                   @ drop (?s + length results) (all_fits_data st)\<rparr>"
      let ?st = "if cb then ?st1\<lparr>progress := progress ?st1 @
                     [real (j + 1) / real tc * 100]\<rparr> else ?st1"
      from True nf less.prems(6) Inr sc
      have rec: "chunk_loop corrcoef pool cb args tc (j + 1) ?st = (st', True)"
        by (subst (asm) chunk_loop.simps) (simp add: Let_def)
      have dec: "tc - (j + 1) < tc - j" using True by arith
      have se2: "?s + length results \<le> length (all_fits_data st)"
        using se less.prems(2) by simp
      have alt: "length results = CHUNK_SIZE \<or> ?s + length results = length args"
        using rl sl by arith
      have l1: "length (mapopt_series ?st) = length args"
        "length (all_fits_data ?st) = length args"
        using splice_length[of ?s "map (\<lambda>r. fst (snd r)) results" "mapopt_series st"]
          splice_length[of ?s "map (\<lambda>r. snd (snd r)) results" "all_fits_data st"]
          fit se2 less.prems(1,2)
        by simp_all
      have rc: "length results \<le> CHUNK_SIZE" using rl by simp

      have nxt: "(j + 1) * CHUNK_SIZE = ?s + CHUNK_SIZE" by simp
      have tk: "take ((j + 1) * CHUNK_SIZE) args = take ?s args @ ?chunk"
      proof -
        have "take ((j + 1) * CHUNK_SIZE) args = take (?s + CHUNK_SIZE) args"
          by (simp only: nxt)
        also have "\<dots> = take ?s args @ take CHUNK_SIZE (drop ?s args)"
          by (rule take_add)
        also have "\<dots> = take ?s args @ ?chunk"
          by (simp only: chunk)
        finally show ?thesis .
      qed
      have d1: "collect (map (process_time_point corrcoef) (take ((j + 1) * CHUNK_SIZE) args))
                  = Inr (drs @ results)"
        unfolding tk by (simp only: map_append collect_append less.prems(3) Inr sum.case)
      have d2: "take ((j + 1) * CHUNK_SIZE) (mapopt_series ?st)
                  = map (\<lambda>r. fst (snd r)) (drs @ results)"
        unfolding nxt
        using splice_take[of ?s "map (\<lambda>r. fst (snd r)) results" "mapopt_series st" CHUNK_SIZE]
          fit alt rc less.prems(1,4)
        by simp
      have d3: "take ((j + 1) * CHUNK_SIZE) (all_fits_data ?st)
                  = map (\<lambda>r. snd (snd r)) (drs @ results)"
        unfolding nxt
        using splice_take[of ?s "map (\<lambda>r. snd (snd r)) results" "all_fits_data st" CHUNK_SIZE]
          se2 alt rc less.prems(2,5)
        by simp
      show ?thesis
        by (rule less.hyps[OF dec l1 d1 d2 d3 rec])
    qed
  qed
qed


lemma fallback_full:
  assumes "map a_k args = [0 ..< length args]"
    and "length (mapopt_series st) = length args"
    and "length (all_fits_data st) = length args"
  shows "map_sum (\<lambda>e. e) arrays (fallback_loop corrcoef cb n0 0 args st) = worker_results corrcoef args"
proof -
  have a: "map a_k args = [0 ..< 0 + length args]" using assms(1) by simp
  have b: "0 + length args \<le> length (mapopt_series st)" using assms(2) by simp
  have c: "length (all_fits_data st) = length (mapopt_series st)" using assms(2,3) by simp
  show ?thesis
  proof (cases "collect (map (process_time_point corrcoef) args)")
    case (Inl e)
    then show ?thesis
      unfolding fallback_consecutive[OF a b c] by (simp add: worker_results_def)
  next
    case (Inr rs)
    from collect_indices(2)[OF Inr] have "length rs = length args" .
    then show ?thesis
      unfolding fallback_consecutive[OF a b c]
      using assms(2,3) by (simp add: worker_results_def Inr)
  qed
qed

lemma prepared_indices:
  "map a_k (prepare_processing_args time_vector t MAP rSO2)
     = [0 ..< length (prepare_processing_args time_vector t MAP rSO2)]"
  and prepared_length:
  "length (prepare_processing_args time_vector t MAP rSO2) = length time_vector"
proof -
  show l: "length (prepare_processing_args time_vector t MAP rSO2) = length time_vector"
    by (simp add: prepare_processing_args_def)
  show "map a_k (prepare_processing_args time_vector t MAP rSO2)
     = [0 ..< length (prepare_processing_args time_vector t MAP rSO2)]"
    unfolding l
    by (rule nth_equalityI) (simp_all add: prepare_processing_args_def)
qed

lemma process_parallel_results:
  "map_sum (\<lambda>e. e) arrays
     (process_parallel corrcoef time_vector (prepare_processing_args time_vector t MAP rSO2) pool cb)
     = worker_results corrcoef (prepare_processing_args time_vector t MAP rSO2)"
proof -
  let ?args = "prepare_processing_args time_vector t MAP rSO2"
  let ?st0 = "\<lparr>mapopt_series = replicate (length time_vector) None,
               all_fits_data = replicate (length time_vector) [],
               progress = []\<rparr>"
  let ?tc = "length ?args div CHUNK_SIZE + 1"
  note ks = prepared_indices[of time_vector t MAP rSO2]
  note n = prepared_length[of time_vector t MAP rSO2]
  have l0: "length (mapopt_series ?st0) = length ?args"
    "length (all_fits_data ?st0) = length ?args"
    by (simp_all add: n)
  show ?thesis
  proof (cases "pool = PoolCreateFails")
    case True
    then show ?thesis
      using fallback_full[OF ks l0, of corrcoef cb "length ?args"]
      by (simp add: process_parallel_def)
  next
    case False
    obtain st1 ok where run: "chunk_loop corrcoef pool cb ?args ?tc 0 ?st0 = (st1, ok)"
      by (cases "chunk_loop corrcoef pool cb ?args ?tc 0 ?st0")
    show ?thesis
    proof (cases ok)
      case True
      have "worker_results corrcoef ?args = Inr (arrays st1)"
        by (rule chunk_loop_complete[OF ks refl l0, of corrcoef 0 "[]" pool cb st1])
           (simp_all add: run[unfolded True, simplified] True run)
      then show ?thesis
        using False run True by (simp add: process_parallel_def)
    next
      case ok: False
      from chunk_loop_lengths[OF run] l0
      have l1: "length (mapopt_series st1) = length ?args"
        "length (all_fits_data st1) = length ?args"
        by simp_all
      show ?thesis
        using fallback_full[OF ks l1, of corrcoef cb "length ?args"] False run ok
        by (simp add: process_parallel_def)
    qed
  qed
qed

lemma worker_results_slots:
  assumes "worker_results corrcoef (prepare_processing_args time_vector t MAP rSO2) = Inr (series, fits)"
  shows "length series = length time_vector" and "length fits = length time_vector"
proof -
  from assms obtain rs where
    c: "collect (map (process_time_point corrcoef) (prepare_processing_args time_vector t MAP rSO2)) = Inr rs"
    and r: "series = map (\<lambda>r. fst (snd r)) rs" "fits = map (\<lambda>r. snd (snd r)) rs"
    by (auto simp add: worker_results_def split: sum.splits)
  from collect_indices(2)[OF c] r
  show "length series = length time_vector" and "length fits = length time_vector"
    by (simp_all add: prepared_length)
qed

text \<open>
  C9. Whatever the worker pool does (it works, its creation raises, or a dispatch raises
  at some chunk), the run ends with the same per-slot results: for every time-grid
  index the estimate and the diagnostics list that \<open>_process_time_point\<close> computes for that
  evaluation time, which are the results of the run whose pool works. The sequential
  fallback computes every evaluation time again, the remaining ones among them. (An
  exception of a worker itself is raised again by the fallback, on either path.)
\<close>

theorem fallback_equals_parallel:
  "map_sum (\<lambda>e. e) arrays
     (process_parallel corrcoef time_vector (prepare_processing_args time_vector t MAP rSO2) pool cb)
     = worker_results corrcoef (prepare_processing_args time_vector t MAP rSO2) \<and>
   map_sum (\<lambda>e. e) arrays
     (process_parallel corrcoef time_vector (prepare_processing_args time_vector t MAP rSO2) pool cb)
     = map_sum (\<lambda>e. e) arrays
         (process_parallel corrcoef time_vector (prepare_processing_args time_vector t MAP rSO2)
            PoolOk cb)"
  by (simp only: process_parallel_results)

end
